theory Spec2Isabelle
  imports Main
begin

section \<open>The Istio Pilot webhook: insertion of the external authorization filter\<close>

text \<open>
  A shallow embedding of \<^verbatim>\<open>webhook.go\<close>. Conventions:
  \<^item> a Go struct is a record with the field names of the source, a Go interface value is a
    datatype with one constructor per dynamic type that the source distinguishes (and one
    for \<^verbatim>\<open>nil\<close>), a pointer to a struct is the struct itself, and an \<^verbatim>\<open>option\<close> where
    the source leaves the pointer \<^verbatim>\<open>nil\<close> or dereferences the entries of a slice of
    pointers (the filters of a listener, the listeners of a document): there \<open>None\<close> is a
    \<^verbatim>\<open>nil\<close> entry, the \<^verbatim>\<open>null\<close> of the wire form;
  \<^item> the structs of the imported package \<^verbatim>\<open>v1\<close> list the fields that the source names;
    where the handlers carry entries of such a type through unchanged, the record has one
    more component, \<open>Other\<close>, for the fields that the source never names;
  \<^item> a function that mutates its argument through a pointer returns the new value;
  \<^item> a run-time panic (an index out of range, a failed type assertion, a \<^verbatim>\<open>nil\<close>
    pointer dereference) is the left injection of a sum type, so that every function of
    the model is total;
  \<^item> log output is not part of the model.
  Documents are values: two entries of a document never share a filter object, which is
  what decoding a document from its wire form yields. The clusters of a document are
  only carried through and never dereferenced by the source; they are kept as values.
\<close>

subsection \<open>Constants\<close>

text \<open>
  The two separators are the one-byte strings \<^verbatim>\<open>"~"\<close> and \<^verbatim>\<open>"_"\<close> in the source; they
  are only ever passed to \<^verbatim>\<open>strings.Split\<close>, so the model keeps the byte.
\<close>

definition serviceNodeSeparator :: char where
  "serviceNodeSeparator = CHR ''~''"

definition listenerNameSeparator :: char where
  "listenerNameSeparator = CHR ''_''"

definition AuthZFilterName :: string where
  "AuthZFilterName = ''envoy.ext_authz''"

definition AuthZClusterName :: string where
  "AuthZClusterName = ''calico.dikastes''"

definition DikastesSocketDir :: string where
  "DikastesSocketDir = ''/var/run/dikastes''"

text \<open>
  Constants of the imported package \<^verbatim>\<open>istio.io/istio/pilot/pkg/proxy/envoy/v1\<close> and of
  \<^verbatim>\<open>net/http\<close>.
\<close>

definition HTTPConnectionManager :: string where
  "HTTPConnectionManager = ''http_connection_manager''"

definition ClusterTypeStatic :: string where
  "ClusterTypeStatic = ''static''"

definition LbTypeRoundRobin :: string where
  "LbTypeRoundRobin = ''round_robin''"

definition ClusterFeatureHTTP2 :: string where
  "ClusterFeatureHTTP2 = ''http2''"

definition StatusOK :: nat where
  "StatusOK = 200"

definition StatusBadRequest :: nat where
  "StatusBadRequest = 400"

definition StatusInternalServerError :: nat where
  "StatusInternalServerError = 500"

subsection \<open>Direction and Protocol\<close>

text \<open>
  \<^verbatim>\<open>type Direction int\<close> and \<^verbatim>\<open>type Protocol int\<close>, with constants numbered by
  \<^verbatim>\<open>iota\<close>. The model keeps the integers: a variable declared without a value
  (\<^verbatim>\<open>var proto Protocol\<close>) holds 0.
\<close>

type_synonym Direction = int

definition INBOUND :: Direction where
  "INBOUND = 0"

definition OUTBOUND :: Direction where
  "OUTBOUND = 1"

definition VIRTUAL :: Direction where
  "VIRTUAL = 2"

type_synonym Protocol = int

definition HTTP :: Protocol where
  "HTTP = 0"

definition TCP :: Protocol where
  "TCP = 1"

subsection \<open>The data model\<close>

type_synonym fields = "(string \<times> string) list"

record GrpcClusterConfig =
  ClusterName :: string

record AuthzFilterConfig =
  StatPrefix :: string
  GrpcCluster :: "GrpcClusterConfig option"

text \<open>The \<^verbatim>\<open>interface{}\<close> held by \<^verbatim>\<open>v1.HTTPFilter.Config\<close>.\<close>

datatype any_value =
    NilValue
  | AuthzValue AuthzFilterConfig
  | OpaqueValue string

record HTTPFilter =
  Type :: string
  Name :: string
  Config :: any_value

record HTTPFilterConfig =
  Filters :: "HTTPFilter list"
  Other :: fields

text \<open>
  The interface \<^verbatim>\<open>v1.NetworkFilterConfig\<close> held by \<^verbatim>\<open>v1.NetworkFilter.Config\<close>: \<^verbatim>\<open>nil\<close>,
  a \<^verbatim>\<open>*v1.HTTPFilterConfig\<close>, an \<^verbatim>\<open>*AuthzFilterConfig\<close> (which the source makes a member
  of the interface by \<^verbatim>\<open>IsNetworkFilterConfig\<close>), or a value of another dynamic type.
\<close>

datatype NetworkFilterConfig =
    NilConfig
  | HTTPConfig HTTPFilterConfig
  | AuthzConfig AuthzFilterConfig
  | OpaqueConfig string

record NetworkFilter =
  Type :: string
  Name :: string
  Config :: NetworkFilterConfig

record Listener =
  Name :: string
  Filters :: "NetworkFilter option list"
  Other :: fields

record ldsResponse =
  Listeners :: "Listener option list"

record Host =
  URL :: string

record DefaultCBPriority =
  MaxPendingRequests :: int
  MaxRequests :: int

record CircuitBreaker =
  Default :: DefaultCBPriority

record Cluster =
  Name :: string
  ConnectTimeoutMs :: int
  Type :: string
  CircuitBreaker :: "CircuitBreaker option"
  LbType :: string
  Features :: string
  Hosts :: "Host list"
  Other :: fields

record cdsResponse =
  Clusters :: "Cluster list"

record options =
  SetCluster :: bool

subsection \<open>Library functions used by the source\<close>

datatype panic = IndexOutOfRange | InterfaceConversion | NilDereference

text \<open>
  \<^verbatim>\<open>strings.Split(s, sep)\<close> for a one-byte separator: the pieces of \<open>s\<close> between the
  occurrences of the separator, so one piece more than there are separators, and
  a single piece (the whole string, also when it is empty) when there is none. The first
  branch of the \<^verbatim>\<open>case\<close> is never taken.
\<close>

fun Split :: "string \<Rightarrow> char \<Rightarrow> string list" where
  "Split [] sep = [[]]"
| "Split (x # xs) sep =
     (if x = sep then [] # Split xs sep
      else (case Split xs sep of
              [] \<Rightarrow> [[x]]
            | w # ws \<Rightarrow> (x # w) # ws))"

text \<open>The index expression \<^verbatim>\<open>c[i]\<close> on a slice: out of range, it panics.\<close>

definition index :: "'a list \<Rightarrow> nat \<Rightarrow> panic + 'a" where
  "index c i = (if i < length c then Inr (c ! i) else Inl IndexOutOfRange)"

text \<open>
  A request body is an \<^verbatim>\<open>io.Reader\<close>: it delivers the bytes \<open>data\<close> and then either the
  end of the stream or, when \<open>fails\<close> is set, a read error.
\<close>

record Reader =
  data :: string
  fails :: bool

record Request =
  serviceNode :: string
  Body :: Reader

text \<open>
  The response: the status code, which is 200 until the handler sets another one, and
  the bytes written so far.
\<close>

record Response =
  statusCode :: nat
  written :: string

definition NewResponse :: Response where
  "NewResponse = \<lparr>statusCode = StatusOK, written = []\<rparr>"

definition Write :: "Response \<Rightarrow> string \<Rightarrow> Response" where
  "Write resp out = resp\<lparr>written := written resp @ out\<rparr>"

definition WriteErrorString :: "Response \<Rightarrow> nat \<Rightarrow> string \<Rightarrow> Response" where
  "WriteErrorString resp httpStatus errorReason =
     Write (resp\<lparr>statusCode := httpStatus\<rparr>) errorReason"

text \<open>
  \<^verbatim>\<open>ioutil.ReadAll\<close> returns the error of the reader, if any; \<^verbatim>\<open>io.Copy\<close> writes what
  the reader delivers and returns the error, which both callers in the source discard.
\<close>

definition ReadAll :: "Reader \<Rightarrow> string option" where
  "ReadAll r = (if fails r then None else Some (data r))"

definition io_Copy :: "Response \<Rightarrow> Reader \<Rightarrow> Response" where
  "io_Copy resp r = Write resp (data r)"

subsection \<open>classifyListener and updateListener\<close>

definition classifyListener :: "Listener \<Rightarrow> string \<Rightarrow> panic + (Direction \<times> Protocol)" where
  "classifyListener listener ip =
     (let proto = (0 :: Protocol) in
      if Listener.Name listener = ''virtual'' then Inr (VIRTUAL, proto)
      else
        let c = Split (Listener.Name listener) listenerNameSeparator in
        case index c 0 of
          Inl p \<Rightarrow> Inl p
        | Inr c0 \<Rightarrow>
            let proto = (if c0 = ''http'' then HTTP
                         else if c0 = ''tcp'' then TCP
                         else proto) in
            (case index c 1 of
               Inl p \<Rightarrow> Inl p
             | Inr c1 \<Rightarrow>
                 if c1 = ip then Inr (INBOUND, proto) else Inr (OUTBOUND, proto)))"

definition authzHttpConfig :: AuthzFilterConfig where
  "authzHttpConfig =
     \<lparr>StatPrefix = [],
      GrpcCluster = Some \<lparr>ClusterName = AuthZClusterName\<rparr>\<rparr>"

definition authzHttp :: HTTPFilter where
  "authzHttp =
     \<lparr>HTTPFilter.Type = ''decoder'',
      HTTPFilter.Name = AuthZFilterName,
      HTTPFilter.Config = AuthzValue authzHttpConfig\<rparr>"

text \<open>
  The loop of \<^verbatim>\<open>updateHTTPListener\<close> over \<^verbatim>\<open>listener.Filters\<close>. It reads the name of
  each entry in turn, which panics on a \<^verbatim>\<open>nil\<close> entry, and breaks at the first filter named
  \<^verbatim>\<open>v1.HTTPConnectionManager\<close>: the result is that filter with its position, or \<open>None\<close>
  when the loop runs to the end and \<^verbatim>\<open>httpManagerConfig\<close> stays \<^verbatim>\<open>nil\<close>.
\<close>

fun findHTTPManager :: "NetworkFilter option list \<Rightarrow> panic + (nat \<times> NetworkFilter) option" where
  "findHTTPManager [] = Inr None"
| "findHTTPManager (None # rest) = Inl NilDereference"
| "findHTTPManager (Some flt # rest) =
     (if NetworkFilter.Name flt = HTTPConnectionManager then Inr (Some (0, flt))
      else (case findHTTPManager rest of
              Inl p \<Rightarrow> Inl p
            | Inr None \<Rightarrow> Inr None
            | Inr (Some (i, found)) \<Rightarrow> Inr (Some (Suc i, found))))"

text \<open>
  \<^verbatim>\<open>updateHTTPListener\<close>. \<^verbatim>\<open>httpManagerConfig\<close> is the configuration of the filter that the
  loop found. The assignment to \<^verbatim>\<open>cfg.Filters\<close> goes through the pointer held by that
  filter, so the model stores the new configuration in it, at its position. A \<^verbatim>\<open>nil\<close>
  configuration is only logged; a configuration of another dynamic type fails the type
  assertion.
\<close>

definition updateHTTPListener :: "Listener \<Rightarrow> panic + Listener" where
  "updateHTTPListener listener =
     (case findHTTPManager (Listener.Filters listener) of
        Inl p \<Rightarrow> Inl p
      | Inr None \<Rightarrow> Inr listener
      | Inr (Some (i, flt)) \<Rightarrow>
          (case NetworkFilter.Config flt of
             NilConfig \<Rightarrow> Inr listener
           | HTTPConfig cfg \<Rightarrow>
               Inr (listener\<lparr>Listener.Filters :=
                 (Listener.Filters listener)
                   [i := Some (flt\<lparr>NetworkFilter.Config :=
                      HTTPConfig (cfg\<lparr>HTTPFilterConfig.Filters :=
                        authzHttp # HTTPFilterConfig.Filters cfg\<rparr>)\<rparr>)]\<rparr>)
           | AuthzConfig a \<Rightarrow> Inl InterfaceConversion
           | OpaqueConfig s \<Rightarrow> Inl InterfaceConversion))"

definition authzTCPConfig :: AuthzFilterConfig where
  "authzTCPConfig =
     \<lparr>StatPrefix = AuthZFilterName,
      GrpcCluster = Some \<lparr>ClusterName = AuthZClusterName\<rparr>\<rparr>"

definition authzTCP :: NetworkFilter where
  "authzTCP =
     \<lparr>NetworkFilter.Type = ''read'',
      NetworkFilter.Name = AuthZFilterName,
      NetworkFilter.Config = AuthzConfig authzTCPConfig\<rparr>"

definition updateTCPListener :: "Listener \<Rightarrow> Listener" where
  "updateTCPListener listener =
     listener\<lparr>Listener.Filters := Some authzTCP # Listener.Filters listener\<rparr>"

definition updateListener :: "Listener \<Rightarrow> string \<Rightarrow> panic + Listener" where
  "updateListener listener ip =
     (case classifyListener listener ip of
        Inl p \<Rightarrow> Inl p
      | Inr (direction, proto) \<Rightarrow>
          if direction = OUTBOUND then Inr listener
          else if direction = VIRTUAL then Inr listener
          else if proto = HTTP then updateHTTPListener listener
          else if proto = TCP then Inr (updateTCPListener listener)
          else Inr listener)"

subsection \<open>The handlers\<close>

text \<open>
  The loop of \<^verbatim>\<open>listeners\<close> over the entries of the document, in order; a panic ends it.
  On a \<^verbatim>\<open>nil\<close> entry the call of \<^verbatim>\<open>updateListener\<close> panics as soon as \<^verbatim>\<open>classifyListener\<close>
  reads the name.
\<close>

fun updateListeners :: "Listener option list \<Rightarrow> string \<Rightarrow> panic + Listener option list" where
  "updateListeners [] ip = Inr []"
| "updateListeners (None # ls) ip = Inl NilDereference"
| "updateListeners (Some l # ls) ip =
     (case updateListener l ip of
        Inl p \<Rightarrow> Inl p
      | Inr l' \<Rightarrow>
          (case updateListeners ls ip of
             Inl p \<Rightarrow> Inl p
           | Inr ls' \<Rightarrow> Inr (Some l' # ls')))"

text \<open>
  \<^verbatim>\<open>listeners\<close>. The JSON codec of the imported packages is a parameter: \<open>Unmarshal\<close> maps
  the bytes of a body to the document they encode, \<open>Marshal\<close> a document to its bytes;
  \<open>None\<close> is the error return of either. A panic of the handler leaves no response of
  its own.
\<close>

definition listeners ::
  "(string \<rightharpoonup> ldsResponse) \<Rightarrow> (ldsResponse \<rightharpoonup> string) \<Rightarrow> Request \<Rightarrow> Response
     \<Rightarrow> panic + Response" where
  "listeners Unmarshal Marshal req resp =
     (let c = Split (serviceNode req) serviceNodeSeparator in
      case index c 0 of
        Inl p \<Rightarrow> Inl p
      | Inr nodeType \<Rightarrow>
          (case index c 1 of
             Inl p \<Rightarrow> Inl p
           | Inr ip \<Rightarrow>
               if nodeType \<noteq> ''sidecar'' then Inr (io_Copy resp (Body req))
               else
                 (case ReadAll (Body req) of
                    None \<Rightarrow>
                      Inr (WriteErrorString resp StatusInternalServerError
                             ''failed to read request'')
                  | Some body \<Rightarrow>
                      (case Unmarshal body of
                         None \<Rightarrow>
                           Inr (WriteErrorString resp StatusBadRequest
                                  ''could not parse request JSON'')
                       | Some lds \<Rightarrow>
                           (case updateListeners (Listeners lds) ip of
                              Inl p \<Rightarrow> Inl p
                            | Inr ls \<Rightarrow>
                                (case Marshal (lds\<lparr>Listeners := ls\<rparr>) of
                                   None \<Rightarrow>
                                     Inr (WriteErrorString resp StatusInternalServerError
                                            ''internal error'')
                                 | Some out \<Rightarrow> Inr (Write resp out)))))))"

text \<open>The cluster that \<^verbatim>\<open>clusters\<close> appends.\<close>

definition dikastesCluster :: Cluster where
  "dikastesCluster =
     \<lparr>Cluster.Name = AuthZClusterName,
      ConnectTimeoutMs = 5000,
      Cluster.Type = ClusterTypeStatic,
      CircuitBreaker =
        Some \<lparr>Default = \<lparr>MaxPendingRequests = 10000, MaxRequests = 10000\<rparr>\<rparr>,
      LbType = LbTypeRoundRobin,
      Features = ClusterFeatureHTTP2,
      Hosts = [\<lparr>URL = ''unix://'' @ DikastesSocketDir @ ''/dikastes.sock''\<rparr>],
      Cluster.Other = []\<rparr>"

text \<open>
  \<^verbatim>\<open>clusters\<close>, with the package-level \<^verbatim>\<open>configOptions\<close> as a parameter. On a read error
  and on an encoding error the handler logs and returns without writing anything.
\<close>

definition clusters ::
  "options \<Rightarrow> (string \<rightharpoonup> cdsResponse) \<Rightarrow> (cdsResponse \<rightharpoonup> string) \<Rightarrow> Request \<Rightarrow> Response
     \<Rightarrow> Response" where
  "clusters configOptions Unmarshal Marshal req resp =
     (case ReadAll (Body req) of
        None \<Rightarrow> resp
      | Some body \<Rightarrow>
          (case Unmarshal body of
             None \<Rightarrow> WriteErrorString resp StatusBadRequest ''could not parse request JSON''
           | Some cds \<Rightarrow>
               let cds = (if SetCluster configOptions
                          then cds\<lparr>Clusters := Clusters cds @ [dikastesCluster]\<rparr>
                          else cds) in
               (case Marshal cds of
                  None \<Rightarrow> resp
                | Some out \<Rightarrow> Write resp out)))"

section \<open>Properties\<close>

subsection \<open>Splitting and classification\<close>

lemma Split_not_Nil: "Split s sep \<noteq> []"
  by (induction s) (auto split: list.splits)

lemma Split_length_pos: "0 < length (Split s sep)"
  using Split_not_Nil [of s sep] by simp

lemma Split_no_separator: "sep \<notin> set s \<Longrightarrow> Split s sep = [s]"
  by (induction s) auto

lemma Split_length: "length (Split s sep) = Suc (length (filter (\<lambda>x. x = sep) s))"
  by (induction s) (auto split: list.splits simp: Split_not_Nil)

lemma Split_short_iff: "length (Split s sep) < 2 \<longleftrightarrow> sep \<notin> set s"
  by (auto simp add: Split_length filter_empty_conv)

lemma index_first_Split: "index (Split s sep) 0 = Inr (Split s sep ! 0)"
  by (simp add: index_def Split_not_Nil)

lemma classifyListener_virtual:
  "Listener.Name l = ''virtual'' \<Longrightarrow> classifyListener l ip = Inr (VIRTUAL, HTTP)"
  by (simp add: classifyListener_def HTTP_def)

lemma classifyListener_tokens:
  assumes "Listener.Name l \<noteq> ''virtual''"
    and "2 \<le> length (Split (Listener.Name l) listenerNameSeparator)"
  shows "classifyListener l ip =
    Inr (if Split (Listener.Name l) listenerNameSeparator ! 1 = ip then INBOUND else OUTBOUND,
         if Split (Listener.Name l) listenerNameSeparator ! 0 = ''http'' then HTTP
         else if Split (Listener.Name l) listenerNameSeparator ! 0 = ''tcp'' then TCP else 0)"
  using assms by (simp add: classifyListener_def index_def Let_def Split_not_Nil)

lemma classifyListener_short:
  assumes "Listener.Name l \<noteq> ''virtual''"
    and "length (Split (Listener.Name l) listenerNameSeparator) < 2"
  shows "classifyListener l ip = Inl IndexOutOfRange"
  using assms by (simp add: classifyListener_def index_def Let_def Split_not_Nil)

lemma two_tokens_not_virtual:
  assumes "2 \<le> length (Split s listenerNameSeparator)"
  shows "s \<noteq> ''virtual''"
proof
  assume "s = ''virtual''"
  then have "length (Split s listenerNameSeparator) = 1"
    by (simp add: listenerNameSeparator_def)
  with assms show False by simp
qed

subsection \<open>The connection manager of a listener\<close>

text \<open>
  The loop finds the filter at position \<open>i\<close> when that filter is named
  \<^verbatim>\<open>v1.HTTPConnectionManager\<close> and every entry before it is a filter of another name. It
  panics when it meets a \<^verbatim>\<open>nil\<close> entry first.
\<close>

lemma findHTTPManager_found:
  assumes "i < length fs"
    and "fs ! i = Some f"
    and "NetworkFilter.Name f = HTTPConnectionManager"
    and "\<forall>j<i. \<exists>g. fs ! j = Some g \<and> NetworkFilter.Name g \<noteq> HTTPConnectionManager"
  shows "findHTTPManager fs = Inr (Some (i, f))"
  using assms
proof (induction fs arbitrary: i)
  case Nil
  then show ?case by simp
next
  case (Cons x xs)
  show ?case
  proof (cases i)
    case 0
    with Cons.prems show ?thesis by simp
  next
    case (Suc k)
    from Cons.prems(4) Suc obtain g where g: "x = Some g"
      "NetworkFilter.Name g \<noteq> HTTPConnectionManager"
      by fastforce
    have "\<forall>j<k. \<exists>h. xs ! j = Some h \<and> NetworkFilter.Name h \<noteq> HTTPConnectionManager"
    proof (intro allI impI)
      fix j assume "j < k"
      then have "Suc j < i" using Suc by simp
      with Cons.prems(4) show
        "\<exists>h. xs ! j = Some h \<and> NetworkFilter.Name h \<noteq> HTTPConnectionManager"
        by fastforce
    qed
    with Cons.IH [of k] Cons.prems(1-3) Suc have "findHTTPManager xs = Inr (Some (k, f))"
      by simp
    with g Suc show ?thesis by simp
  qed
qed

lemma findHTTPManager_nil_entry:
  assumes "j < length fs"
    and "fs ! j = None"
    and "\<forall>k<j. \<exists>g. fs ! k = Some g \<and> NetworkFilter.Name g \<noteq> HTTPConnectionManager"
  shows "findHTTPManager fs = Inl NilDereference"
  using assms
proof (induction fs arbitrary: j)
  case Nil
  then show ?case by simp
next
  case (Cons x xs)
  show ?case
  proof (cases j)
    case 0
    with Cons.prems show ?thesis by simp
  next
    case (Suc k)
    from Cons.prems(3) Suc obtain g where g: "x = Some g"
      "NetworkFilter.Name g \<noteq> HTTPConnectionManager"
      by fastforce
    have "\<forall>m<k. \<exists>h. xs ! m = Some h \<and> NetworkFilter.Name h \<noteq> HTTPConnectionManager"
    proof (intro allI impI)
      fix m assume "m < k"
      then have "Suc m < j" using Suc by simp
      with Cons.prems(3) show
        "\<exists>h. xs ! m = Some h \<and> NetworkFilter.Name h \<noteq> HTTPConnectionManager"
        by fastforce
    qed
    with Cons.IH [of k] Cons.prems(1,2) Suc have "findHTTPManager xs = Inl NilDereference"
      by simp
    with g show ?thesis by simp
  qed
qed

lemma findHTTPManager_Some:
  "findHTTPManager fs = Inr (Some (i, f)) \<Longrightarrow>
     i < length fs \<and> fs ! i = Some f \<and> NetworkFilter.Name f = HTTPConnectionManager"
proof (induction fs arbitrary: i)
  case Nil
  then show ?case by simp
next
  case (Cons x xs)
  show ?case
  proof (cases x)
    case None
    with Cons.prems show ?thesis by simp
  next
    case (Some g)
    show ?thesis
    proof (cases "NetworkFilter.Name g = HTTPConnectionManager")
      case True
      with Cons.prems Some show ?thesis by simp
    next
      case False
      with Cons.prems Some obtain k where "findHTTPManager xs = Inr (Some (k, f))" "i = Suc k"
        by (auto split: sum.splits option.splits)
      with Cons.IH [of k] show ?thesis by simp
    qed
  qed
qed

subsection \<open>Single steps of the update and of the handlers\<close>

lemma updateHTTPListener_found:
  assumes "i < length (Listener.Filters l)"
    and "Listener.Filters l ! i = Some f"
    and "NetworkFilter.Name f = HTTPConnectionManager"
    and "\<forall>j<i. \<exists>g. Listener.Filters l ! j = Some g
           \<and> NetworkFilter.Name g \<noteq> HTTPConnectionManager"
    and "NetworkFilter.Config f = HTTPConfig cfg"
  shows "updateHTTPListener l =
     Inr (l\<lparr>Listener.Filters := (Listener.Filters l)
            [i := Some (f\<lparr>NetworkFilter.Config :=
               HTTPConfig (cfg\<lparr>HTTPFilterConfig.Filters :=
                 authzHttp # HTTPFilterConfig.Filters cfg\<rparr>)\<rparr>)]\<rparr>)"
proof -
  have "findHTTPManager (Listener.Filters l) = Inr (Some (i, f))"
    using assms(1-4) by (rule findHTTPManager_found)
  then show ?thesis
    using assms(5) by (simp add: updateHTTPListener_def)
qed

lemma updateHTTPListener_nil_entry:
  assumes "j < length (Listener.Filters l)"
    and "Listener.Filters l ! j = None"
    and "\<forall>k<j. \<exists>g. Listener.Filters l ! k = Some g
           \<and> NetworkFilter.Name g \<noteq> HTTPConnectionManager"
  shows "updateHTTPListener l = Inl NilDereference"
proof -
  have "findHTTPManager (Listener.Filters l) = Inl NilDereference"
    using assms by (rule findHTTPManager_nil_entry)
  then show ?thesis
    by (simp add: updateHTTPListener_def)
qed

lemma classifyListener_http_inbound:
  assumes "2 \<le> length (Split (Listener.Name l) listenerNameSeparator)"
    and "Split (Listener.Name l) listenerNameSeparator ! 0 = ''http''"
    and "Split (Listener.Name l) listenerNameSeparator ! 1 = ip"
  shows "classifyListener l ip = Inr (INBOUND, HTTP)"
proof -
  have "Listener.Name l \<noteq> ''virtual''"
    using assms(1) by (rule two_tokens_not_virtual)
  then show ?thesis
    using assms by (simp add: classifyListener_tokens)
qed

lemma classifyListener_tcp_inbound:
  assumes "2 \<le> length (Split (Listener.Name l) listenerNameSeparator)"
    and "Split (Listener.Name l) listenerNameSeparator ! 0 = ''tcp''"
    and "Split (Listener.Name l) listenerNameSeparator ! 1 = ip"
  shows "classifyListener l ip = Inr (INBOUND, TCP)"
proof -
  have "Listener.Name l \<noteq> ''virtual''"
    using assms(1) by (rule two_tokens_not_virtual)
  then show ?thesis
    using assms by (simp add: classifyListener_tokens)
qed

lemma updateListener_calls_HTTP:
  "classifyListener l ip = Inr (INBOUND, HTTP) \<Longrightarrow> updateListener l ip = updateHTTPListener l"
  by (simp add: updateListener_def INBOUND_def OUTBOUND_def VIRTUAL_def)

lemma updateListener_calls_TCP:
  "classifyListener l ip = Inr (INBOUND, TCP) \<Longrightarrow>
     updateListener l ip = Inr (updateTCPListener l)"
  by (simp add: updateListener_def INBOUND_def OUTBOUND_def VIRTUAL_def HTTP_def TCP_def)

lemma classifyListener_Name:
  "Listener.Name l' = Listener.Name l \<Longrightarrow> classifyListener l' ip = classifyListener l ip"
  by (simp add: classifyListener_def)

lemma updateTCPListener_Name: "Listener.Name (updateTCPListener l) = Listener.Name l"
  by (simp add: updateTCPListener_def)

lemma updateListener_http_result:
  assumes "2 \<le> length (Split (Listener.Name l) listenerNameSeparator)"
    and "Split (Listener.Name l) listenerNameSeparator ! 0 = ''http''"
    and "Split (Listener.Name l) listenerNameSeparator ! 1 = ip"
    and "i < length (Listener.Filters l)"
    and "Listener.Filters l ! i = Some f"
    and "NetworkFilter.Name f = HTTPConnectionManager"
    and "\<forall>j<i. \<exists>g. Listener.Filters l ! j = Some g
           \<and> NetworkFilter.Name g \<noteq> HTTPConnectionManager"
    and "NetworkFilter.Config f = HTTPConfig cfg"
  shows "updateListener l ip =
     Inr (l\<lparr>Listener.Filters := (Listener.Filters l)
            [i := Some (f\<lparr>NetworkFilter.Config :=
               HTTPConfig (cfg\<lparr>HTTPFilterConfig.Filters :=
                 authzHttp # HTTPFilterConfig.Filters cfg\<rparr>)\<rparr>)]\<rparr>)"
proof -
  have "classifyListener l ip = Inr (INBOUND, HTTP)"
    using assms(1-3) by (rule classifyListener_http_inbound)
  then have "updateListener l ip = updateHTTPListener l"
    by (rule updateListener_calls_HTTP)
  then show ?thesis
    using assms(4-8) by (simp add: updateHTTPListener_found)
qed

lemma updateListener_tcp_result:
  assumes "2 \<le> length (Split (Listener.Name l) listenerNameSeparator)"
    and "Split (Listener.Name l) listenerNameSeparator ! 0 = ''tcp''"
    and "Split (Listener.Name l) listenerNameSeparator ! 1 = ip"
  shows "updateListener l ip =
     Inr (l\<lparr>Listener.Filters := Some authzTCP # Listener.Filters l\<rparr>)"
proof -
  have "classifyListener l ip = Inr (INBOUND, TCP)"
    using assms by (rule classifyListener_tcp_inbound)
  then have "updateListener l ip = Inr (updateTCPListener l)"
    by (rule updateListener_calls_TCP)
  then show ?thesis
    by (simp add: updateTCPListener_def)
qed

lemma authzHttp_fields:
  "authzHttp =
     \<lparr>HTTPFilter.Type = ''decoder'', HTTPFilter.Name = ''envoy.ext_authz'',
      HTTPFilter.Config = AuthzValue
        \<lparr>StatPrefix = [],
         GrpcCluster = Some \<lparr>ClusterName = ''calico.dikastes''\<rparr>\<rparr>\<rparr>"
  by (simp add: authzHttp_def authzHttpConfig_def AuthZFilterName_def AuthZClusterName_def)

lemma authzTCP_fields:
  "authzTCP =
     \<lparr>NetworkFilter.Type = ''read'', NetworkFilter.Name = ''envoy.ext_authz'',
      NetworkFilter.Config = AuthzConfig
        \<lparr>StatPrefix = ''envoy.ext_authz'',
         GrpcCluster = Some \<lparr>ClusterName = ''calico.dikastes''\<rparr>\<rparr>\<rparr>"
  by (simp add: authzTCP_def authzTCPConfig_def AuthZFilterName_def AuthZClusterName_def)

lemma updateListeners_panics:
  "Some l \<in> set ls \<Longrightarrow> updateListener l ip = Inl p \<Longrightarrow> \<exists>q. updateListeners ls ip = Inl q"
proof (induction ls)
  case Nil
  then show ?case by simp
next
  case (Cons x xs)
  show ?case
  proof (cases x)
    case None
    then show ?thesis by simp
  next
    case (Some y)
    show ?thesis
    proof (cases "updateListener y ip")
      case (Inl q)
      with Some show ?thesis by simp
    next
      case (Inr y')
      with Cons.prems Some have "Some l \<in> set xs" by auto
      with Cons.IH Cons.prems(2) obtain q where "updateListeners xs ip = Inl q" by blast
      with Some Inr show ?thesis by simp
    qed
  qed
qed

lemma updateListener_short:
  assumes "Listener.Name l \<noteq> ''virtual''"
    and "length (Split (Listener.Name l) listenerNameSeparator) < 2"
  shows "updateListener l ip = Inl IndexOutOfRange"
  using assms by (simp add: updateListener_def classifyListener_short)

lemma updateListener_unknown_protocol:
  assumes "2 \<le> length (Split (Listener.Name l) listenerNameSeparator)"
    and "Split (Listener.Name l) listenerNameSeparator ! 0 \<noteq> ''http''"
    and "Split (Listener.Name l) listenerNameSeparator ! 0 \<noteq> ''tcp''"
    and "Split (Listener.Name l) listenerNameSeparator ! 1 = ip"
  shows "classifyListener l ip = Inr (INBOUND, HTTP)"
    and "updateListener l ip = updateHTTPListener l"
proof -
  have "Listener.Name l \<noteq> ''virtual''"
    using assms(1) by (rule two_tokens_not_virtual)
  then show "classifyListener l ip = Inr (INBOUND, HTTP)"
    using assms by (simp add: classifyListener_tokens HTTP_def)
  then show "updateListener l ip = updateHTTPListener l"
    by (rule updateListener_calls_HTTP)
qed

lemma listeners_malformed_descriptor:
  "length (Split (serviceNode req) serviceNodeSeparator) < 2 \<Longrightarrow>
     listeners Unmarshal Marshal req resp = Inl IndexOutOfRange"
  by (simp add: listeners_def index_def Split_not_Nil Let_def)

lemma listeners_read_failure:
  assumes "2 \<le> length (Split (serviceNode req) serviceNodeSeparator)"
    and "Split (serviceNode req) serviceNodeSeparator ! 0 = ''sidecar''"
    and "fails (Body req)"
  shows "listeners Unmarshal Marshal req NewResponse =
           Inr \<lparr>statusCode = 500, written = ''failed to read request''\<rparr>"
  using assms
  by (simp add: listeners_def index_def Split_not_Nil Let_def ReadAll_def
      WriteErrorString_def Write_def NewResponse_def StatusInternalServerError_def)

lemma updateListener_nil_entry:
  assumes "2 \<le> length (Split (Listener.Name l) listenerNameSeparator)"
    and "Split (Listener.Name l) listenerNameSeparator ! 0 = ''http''"
    and "Split (Listener.Name l) listenerNameSeparator ! 1 = ip"
    and "j < length (Listener.Filters l)"
    and "Listener.Filters l ! j = None"
    and "\<forall>k<j. \<exists>g. Listener.Filters l ! k = Some g
           \<and> NetworkFilter.Name g \<noteq> HTTPConnectionManager"
  shows "updateListener l ip = Inl NilDereference"
proof -
  have "classifyListener l ip = Inr (INBOUND, HTTP)"
    using assms(1-3) by (rule classifyListener_http_inbound)
  then have "updateListener l ip = updateHTTPListener l"
    by (rule updateListener_calls_HTTP)
  then show ?thesis
    using assms(4-6) by (simp add: updateHTTPListener_nil_entry)
qed

subsection \<open>Insertion of the filter\<close>

text \<open>
  Claim C1. A listener entry whose name has the first token \<^verbatim>\<open>http\<close> and, as second
  token, the address of the proxy, and which contains a filter named
  \<^verbatim>\<open>v1.HTTPConnectionManager\<close>. Let \<open>f\<close>, at position \<open>i\<close>, be the first filter of that name,
  the entries before it being filters of other names, and let \<open>f\<close> hold an HTTP filter
  configuration \<open>cfg\<close>, whose filters are the HTTP filters of the entry. Then
  \<open>updateListener\<close> returns
  the entry with \<open>f\<close> replaced by \<open>f'\<close>, which is \<open>f\<close>, still named
  \<^verbatim>\<open>v1.HTTPConnectionManager\<close>, with the configuration \<open>cfg'\<close>: its sequence of HTTP filters
  is one longer than that of \<open>cfg\<close>, with the authorization filter (named
  \<^verbatim>\<open>envoy.ext_authz\<close>, of the cluster \<^verbatim>\<open>calico.dikastes\<close>) at index 0 and the filters of
  \<open>cfg\<close> after it, in their order. Nothing else of the entry changes. A sequence of
  filter entries has no \<^verbatim>\<open>nil\<close> entry; on one that stands before the first connection
  manager the source panics (\<open>updateListener_nil_entry\<close>).
\<close>

theorem updateListener_http_inbound:
  assumes "2 \<le> length (Split (Listener.Name l) listenerNameSeparator)"
    and "Split (Listener.Name l) listenerNameSeparator ! 0 = ''http''"
    and "Split (Listener.Name l) listenerNameSeparator ! 1 = ip"
    and "i < length (Listener.Filters l)"
    and "Listener.Filters l ! i = Some f"
    and "NetworkFilter.Name f = HTTPConnectionManager"
    and "\<forall>j<i. \<exists>g. Listener.Filters l ! j = Some g
           \<and> NetworkFilter.Name g \<noteq> HTTPConnectionManager"
    and "NetworkFilter.Config f = HTTPConfig cfg"
  shows "\<exists>l' f' cfg'. updateListener l ip = Inr l'
      \<and> l' = l\<lparr>Listener.Filters := (Listener.Filters l)[i := Some f']\<rparr>
      \<and> Listener.Filters l' ! i = Some f'
      \<and> f' = f\<lparr>NetworkFilter.Config := HTTPConfig cfg'\<rparr>
      \<and> NetworkFilter.Name f' = HTTPConnectionManager
      \<and> length (HTTPFilterConfig.Filters cfg') = length (HTTPFilterConfig.Filters cfg) + 1
      \<and> HTTPFilterConfig.Filters cfg' ! 0 =
          \<lparr>HTTPFilter.Type = ''decoder'', HTTPFilter.Name = ''envoy.ext_authz'',
           HTTPFilter.Config = AuthzValue
             \<lparr>StatPrefix = [],
              GrpcCluster = Some \<lparr>ClusterName = ''calico.dikastes''\<rparr>\<rparr>\<rparr>
      \<and> HTTPFilterConfig.Filters cfg' =
          HTTPFilterConfig.Filters cfg' ! 0 # HTTPFilterConfig.Filters cfg
      \<and> HTTPFilterConfig.Other cfg' = HTTPFilterConfig.Other cfg"
proof -
  let ?cfg' = "cfg\<lparr>HTTPFilterConfig.Filters := authzHttp # HTTPFilterConfig.Filters cfg\<rparr>"
  let ?f' = "f\<lparr>NetworkFilter.Config := HTTPConfig ?cfg'\<rparr>"
  let ?l' = "l\<lparr>Listener.Filters := (Listener.Filters l)[i := Some ?f']\<rparr>"
  have upd: "updateListener l ip = Inr ?l'"
    using assms by (rule updateListener_http_result)
  have first: "HTTPFilterConfig.Filters ?cfg' ! 0 =
          \<lparr>HTTPFilter.Type = ''decoder'', HTTPFilter.Name = ''envoy.ext_authz'',
           HTTPFilter.Config = AuthzValue
             \<lparr>StatPrefix = [],
              GrpcCluster = Some \<lparr>ClusterName = ''calico.dikastes''\<rparr>\<rparr>\<rparr>"
    by (simp add: authzHttp_fields)
  have "updateListener l ip = Inr ?l'
      \<and> ?l' = l\<lparr>Listener.Filters := (Listener.Filters l)[i := Some ?f']\<rparr>
      \<and> Listener.Filters ?l' ! i = Some ?f'
      \<and> ?f' = f\<lparr>NetworkFilter.Config := HTTPConfig ?cfg'\<rparr>
      \<and> NetworkFilter.Name ?f' = HTTPConnectionManager
      \<and> length (HTTPFilterConfig.Filters ?cfg') = length (HTTPFilterConfig.Filters cfg) + 1
      \<and> HTTPFilterConfig.Filters ?cfg' ! 0 =
          \<lparr>HTTPFilter.Type = ''decoder'', HTTPFilter.Name = ''envoy.ext_authz'',
           HTTPFilter.Config = AuthzValue
             \<lparr>StatPrefix = [],
              GrpcCluster = Some \<lparr>ClusterName = ''calico.dikastes''\<rparr>\<rparr>\<rparr>
      \<and> HTTPFilterConfig.Filters ?cfg' =
          HTTPFilterConfig.Filters ?cfg' ! 0 # HTTPFilterConfig.Filters cfg
      \<and> HTTPFilterConfig.Other ?cfg' = HTTPFilterConfig.Other cfg"
    using upd first assms(4,6) by simp
  then show ?thesis
    by blast
qed

theorem updateListener_http_inbound_witness:
  "2 \<le> length (Split ''http_3.4.5.6_43'' listenerNameSeparator)
   \<and> Split ''http_3.4.5.6_43'' listenerNameSeparator ! 0 = ''http''
   \<and> Split ''http_3.4.5.6_43'' listenerNameSeparator ! 1 = ''3.4.5.6''
   \<and> updateListener
       \<lparr>Listener.Name = ''http_3.4.5.6_43'',
        Listener.Filters =
          [Some \<lparr>NetworkFilter.Type = ''read'', NetworkFilter.Name = ''tcp_proxy'',
             NetworkFilter.Config = HTTPConfig
               \<lparr>HTTPFilterConfig.Filters = [], HTTPFilterConfig.Other = []\<rparr>\<rparr>,
           Some \<lparr>NetworkFilter.Type = ''read'', NetworkFilter.Name = HTTPConnectionManager,
             NetworkFilter.Config = HTTPConfig
               \<lparr>HTTPFilterConfig.Filters =
                  [\<lparr>HTTPFilter.Type = [], HTTPFilter.Name = ''cors'',
                    HTTPFilter.Config = NilValue\<rparr>],
                HTTPFilterConfig.Other = []\<rparr>\<rparr>],
        Listener.Other = []\<rparr> ''3.4.5.6'' =
     Inr \<lparr>Listener.Name = ''http_3.4.5.6_43'',
          Listener.Filters =
            [Some \<lparr>NetworkFilter.Type = ''read'', NetworkFilter.Name = ''tcp_proxy'',
               NetworkFilter.Config = HTTPConfig
                 \<lparr>HTTPFilterConfig.Filters = [], HTTPFilterConfig.Other = []\<rparr>\<rparr>,
             Some \<lparr>NetworkFilter.Type = ''read'', NetworkFilter.Name = HTTPConnectionManager,
               NetworkFilter.Config = HTTPConfig
                 \<lparr>HTTPFilterConfig.Filters =
                    [\<lparr>HTTPFilter.Type = ''decoder'', HTTPFilter.Name = ''envoy.ext_authz'',
                      HTTPFilter.Config = AuthzValue
                        \<lparr>StatPrefix = [],
                         GrpcCluster = Some \<lparr>ClusterName = ''calico.dikastes''\<rparr>\<rparr>\<rparr>,
                     \<lparr>HTTPFilter.Type = [], HTTPFilter.Name = ''cors'',
                      HTTPFilter.Config = NilValue\<rparr>],
                  HTTPFilterConfig.Other = []\<rparr>\<rparr>],
          Listener.Other = []\<rparr>"
proof -
  let ?cfg = "\<lparr>HTTPFilterConfig.Filters =
                  [\<lparr>HTTPFilter.Type = [], HTTPFilter.Name = ''cors'',
                    HTTPFilter.Config = NilValue\<rparr>],
                HTTPFilterConfig.Other = []\<rparr>"
  let ?g = "\<lparr>NetworkFilter.Type = ''read'', NetworkFilter.Name = ''tcp_proxy'',
             NetworkFilter.Config = HTTPConfig
               \<lparr>HTTPFilterConfig.Filters = [], HTTPFilterConfig.Other = []\<rparr>\<rparr>"
  let ?f = "\<lparr>NetworkFilter.Type = ''read'', NetworkFilter.Name = HTTPConnectionManager,
             NetworkFilter.Config = HTTPConfig ?cfg\<rparr>"
  let ?l = "\<lparr>Listener.Name = ''http_3.4.5.6_43'', Listener.Filters = [Some ?g, Some ?f],
        Listener.Other = []\<rparr>"
  have h1: "2 \<le> length (Split (Listener.Name ?l) listenerNameSeparator)"
    by (simp add: listenerNameSeparator_def)
  have h2: "Split (Listener.Name ?l) listenerNameSeparator ! 0 = ''http''"
    by (simp add: listenerNameSeparator_def)
  have h3: "Split (Listener.Name ?l) listenerNameSeparator ! 1 = ''3.4.5.6''"
    by (simp add: listenerNameSeparator_def)
  have h4: "1 < length (Listener.Filters ?l)"
    by simp
  have h5: "Listener.Filters ?l ! 1 = Some ?f"
    by simp
  have h6: "NetworkFilter.Name ?f = HTTPConnectionManager"
    by simp
  have h7: "\<forall>j<1. \<exists>g. Listener.Filters ?l ! j = Some g
           \<and> NetworkFilter.Name g \<noteq> HTTPConnectionManager"
    by (simp add: HTTPConnectionManager_def)
  have h8: "NetworkFilter.Config ?f = HTTPConfig ?cfg"
    by simp
  from updateListener_http_inbound [OF h1 h2 h3 h4 h5 h6 h7 h8]
  obtain l' f' cfg' where
    "updateListener ?l ''3.4.5.6'' = Inr l'"
    "l' = ?l\<lparr>Listener.Filters := (Listener.Filters ?l)[1 := Some f']\<rparr>"
    "f' = ?f\<lparr>NetworkFilter.Config := HTTPConfig cfg'\<rparr>"
    "HTTPFilterConfig.Filters cfg' ! 0 =
          \<lparr>HTTPFilter.Type = ''decoder'', HTTPFilter.Name = ''envoy.ext_authz'',
           HTTPFilter.Config = AuthzValue
             \<lparr>StatPrefix = [],
              GrpcCluster = Some \<lparr>ClusterName = ''calico.dikastes''\<rparr>\<rparr>\<rparr>"
    "HTTPFilterConfig.Filters cfg' =
          HTTPFilterConfig.Filters cfg' ! 0 # HTTPFilterConfig.Filters ?cfg"
    "HTTPFilterConfig.Other cfg' = HTTPFilterConfig.Other ?cfg"
    by blast
  then show ?thesis
    using h1 h2 h3 by (cases cfg') simp
qed

text \<open>
  Claim C2. A listener entry whose name has the first token \<^verbatim>\<open>tcp\<close> and, as second
  token, the address of the proxy: \<open>updateListener\<close> returns the entry with one more
  filter, put in front of the others. The new first filter is the authorization filter:
  it is named \<^verbatim>\<open>envoy.ext_authz\<close>, its stat-prefix is that name, and it refers to the
  cluster \<^verbatim>\<open>calico.dikastes\<close>.
\<close>

theorem updateListener_tcp_inbound:
  assumes "2 \<le> length (Split (Listener.Name l) listenerNameSeparator)"
    and "Split (Listener.Name l) listenerNameSeparator ! 0 = ''tcp''"
    and "Split (Listener.Name l) listenerNameSeparator ! 1 = ip"
  shows "\<exists>l' t a. updateListener l ip = Inr l'
      \<and> l' = l\<lparr>Listener.Filters := Listener.Filters l' ! 0 # Listener.Filters l\<rparr>
      \<and> length (Listener.Filters l') = length (Listener.Filters l) + 1
      \<and> Listener.Filters l' ! 0 = Some t
      \<and> t = \<lparr>NetworkFilter.Type = ''read'', NetworkFilter.Name = ''envoy.ext_authz'',
            NetworkFilter.Config = AuthzConfig a\<rparr>
      \<and> StatPrefix a = NetworkFilter.Name t
      \<and> GrpcCluster a = Some \<lparr>ClusterName = ''calico.dikastes''\<rparr>"
proof -
  have "updateListener l ip =
      Inr (l\<lparr>Listener.Filters := Some authzTCP # Listener.Filters l\<rparr>)"
    using assms by (rule updateListener_tcp_result)
  then show ?thesis
    by (simp add: authzTCP_fields)
qed

theorem updateListener_tcp_inbound_witness:
  "2 \<le> length (Split ''tcp_1.2.3.4_76'' listenerNameSeparator)
   \<and> Split ''tcp_1.2.3.4_76'' listenerNameSeparator ! 0 = ''tcp''
   \<and> Split ''tcp_1.2.3.4_76'' listenerNameSeparator ! 1 = ''1.2.3.4''
   \<and> updateListener
       \<lparr>Listener.Name = ''tcp_1.2.3.4_76'',
        Listener.Filters =
          [Some \<lparr>NetworkFilter.Type = ''read'', NetworkFilter.Name = ''tcp_proxy'',
             NetworkFilter.Config = NilConfig\<rparr>],
        Listener.Other = []\<rparr> ''1.2.3.4'' =
     Inr \<lparr>Listener.Name = ''tcp_1.2.3.4_76'',
          Listener.Filters =
            [Some \<lparr>NetworkFilter.Type = ''read'', NetworkFilter.Name = ''envoy.ext_authz'',
               NetworkFilter.Config = AuthzConfig
                 \<lparr>StatPrefix = ''envoy.ext_authz'',
                  GrpcCluster = Some \<lparr>ClusterName = ''calico.dikastes''\<rparr>\<rparr>\<rparr>,
             Some \<lparr>NetworkFilter.Type = ''read'', NetworkFilter.Name = ''tcp_proxy'',
               NetworkFilter.Config = NilConfig\<rparr>],
          Listener.Other = []\<rparr>"
proof -
  let ?l = "\<lparr>Listener.Name = ''tcp_1.2.3.4_76'',
        Listener.Filters =
          [Some \<lparr>NetworkFilter.Type = ''read'', NetworkFilter.Name = ''tcp_proxy'',
             NetworkFilter.Config = NilConfig\<rparr>],
        Listener.Other = []\<rparr>"
  have h1: "2 \<le> length (Split (Listener.Name ?l) listenerNameSeparator)"
    by (simp add: listenerNameSeparator_def)
  have h2: "Split (Listener.Name ?l) listenerNameSeparator ! 0 = ''tcp''"
    by (simp add: listenerNameSeparator_def)
  have h3: "Split (Listener.Name ?l) listenerNameSeparator ! 1 = ''1.2.3.4''"
    by (simp add: listenerNameSeparator_def)
  from updateListener_tcp_inbound [OF h1 h2 h3]
  obtain l' t a where
    "updateListener ?l ''1.2.3.4'' = Inr l'"
    "l' = ?l\<lparr>Listener.Filters := Listener.Filters l' ! 0 # Listener.Filters ?l\<rparr>"
    "Listener.Filters l' ! 0 = Some t"
    "t = \<lparr>NetworkFilter.Type = ''read'', NetworkFilter.Name = ''envoy.ext_authz'',
            NetworkFilter.Config = AuthzConfig a\<rparr>"
    "StatPrefix a = NetworkFilter.Name t"
    "GrpcCluster a = Some \<lparr>ClusterName = ''calico.dikastes''\<rparr>"
    by blast
  then show ?thesis
    using h1 h2 h3 by (cases a) simp
qed

text \<open>
  Claim C3. A listener entry that is classified \<open>VIRTUAL\<close> (its name is \<^verbatim>\<open>virtual\<close>) or
  \<open>OUTBOUND\<close> (the second token of its name is not the address of the proxy):
  \<open>updateListener\<close> returns the entry as it is, with every field unchanged.
\<close>

theorem updateListener_skips:
  assumes "Listener.Name l = ''virtual''
     \<or> (2 \<le> length (Split (Listener.Name l) listenerNameSeparator)
        \<and> Split (Listener.Name l) listenerNameSeparator ! 1 \<noteq> ip)"
  shows "(\<exists>proto. classifyListener l ip = Inr (VIRTUAL, proto)
            \<or> classifyListener l ip = Inr (OUTBOUND, proto))
      \<and> updateListener l ip = Inr l"
proof (cases "Listener.Name l = ''virtual''")
  case True
  then show ?thesis
    by (simp add: classifyListener_virtual updateListener_def OUTBOUND_def VIRTUAL_def)
next
  case False
  with assms have c: "2 \<le> length (Split (Listener.Name l) listenerNameSeparator)"
    and a: "Split (Listener.Name l) listenerNameSeparator ! 1 \<noteq> ip"
    by simp_all
  from False c a obtain proto where "classifyListener l ip = Inr (OUTBOUND, proto)"
    by (simp add: classifyListener_tokens)
  then show ?thesis
    by (auto simp add: updateListener_def)
qed

theorem updateListener_skips_witness:
  "2 \<le> length (Split ''http_10.65.8.9_443'' listenerNameSeparator)
   \<and> Split ''http_10.65.8.9_443'' listenerNameSeparator ! 1 \<noteq> ''1.2.3.4''
   \<and> updateListener
       \<lparr>Listener.Name = ''http_10.65.8.9_443'', Listener.Filters = [], Listener.Other = []\<rparr>
       ''1.2.3.4'' =
     Inr \<lparr>Listener.Name = ''http_10.65.8.9_443'', Listener.Filters = [], Listener.Other = []\<rparr>
   \<and> updateListener
       \<lparr>Listener.Name = ''virtual'', Listener.Filters = [], Listener.Other = []\<rparr> ''1.2.3.4'' =
     Inr \<lparr>Listener.Name = ''virtual'', Listener.Filters = [], Listener.Other = []\<rparr>"
proof -
  have h: "2 \<le> length (Split ''http_10.65.8.9_443'' listenerNameSeparator)
     \<and> Split ''http_10.65.8.9_443'' listenerNameSeparator ! 1 \<noteq> ''1.2.3.4''"
    by (simp add: listenerNameSeparator_def)
  show ?thesis
    using h
      updateListener_skips [of "\<lparr>Listener.Name = ''http_10.65.8.9_443'',
        Listener.Filters = [], Listener.Other = []\<rparr>" "''1.2.3.4''"]
      updateListener_skips [of "\<lparr>Listener.Name = ''virtual'',
        Listener.Filters = [], Listener.Other = []\<rparr>" "''1.2.3.4''"]
    by simp
qed

text \<open>
  Claim C9. Insertion is not idempotent. For an inbound entry, \<open>updateListener\<close> applied
  to its own result puts a second authorization filter in front of the first. A TCP entry
  ends with two more filters, an HTTP entry (with a connection manager as in C1) ends with
  two more HTTP filters in the configuration of its connection manager. In both cases
  the first two are the authorization filter, named \<^verbatim>\<open>envoy.ext_authz\<close> and of the cluster
  \<^verbatim>\<open>calico.dikastes\<close>, and the original sequence follows.
\<close>

theorem updateListener_twice:
  assumes "2 \<le> length (Split (Listener.Name l) listenerNameSeparator)"
    and "Split (Listener.Name l) listenerNameSeparator ! 1 = ip"
  shows "(Split (Listener.Name l) listenerNameSeparator ! 0 = ''tcp'' \<longrightarrow>
           (\<exists>l1 l2 t. updateListener l ip = Inr l1 \<and> updateListener l1 ip = Inr l2
              \<and> t = \<lparr>NetworkFilter.Type = ''read'', NetworkFilter.Name = ''envoy.ext_authz'',
                     NetworkFilter.Config = AuthzConfig
                       \<lparr>StatPrefix = ''envoy.ext_authz'',
                        GrpcCluster = Some \<lparr>ClusterName = ''calico.dikastes''\<rparr>\<rparr>\<rparr>
              \<and> length (Listener.Filters l2) = length (Listener.Filters l) + 2
              \<and> Listener.Filters l2 ! 0 = Some t
              \<and> Listener.Filters l2 ! 1 = Some t
              \<and> Listener.Filters l2 = Some t # Some t # Listener.Filters l))
      \<and> (Split (Listener.Name l) listenerNameSeparator ! 0 = ''http''
           \<and> i < length (Listener.Filters l)
           \<and> Listener.Filters l ! i = Some f
           \<and> NetworkFilter.Name f = HTTPConnectionManager
           \<and> (\<forall>j<i. \<exists>g. Listener.Filters l ! j = Some g
                  \<and> NetworkFilter.Name g \<noteq> HTTPConnectionManager)
           \<and> NetworkFilter.Config f = HTTPConfig cfg \<longrightarrow>
           (\<exists>l1 l2 cfg2 h. updateListener l ip = Inr l1 \<and> updateListener l1 ip = Inr l2
              \<and> h = \<lparr>HTTPFilter.Type = ''decoder'', HTTPFilter.Name = ''envoy.ext_authz'',
                     HTTPFilter.Config = AuthzValue
                       \<lparr>StatPrefix = [],
                        GrpcCluster = Some \<lparr>ClusterName = ''calico.dikastes''\<rparr>\<rparr>\<rparr>
              \<and> l2 = l\<lparr>Listener.Filters := (Listener.Filters l)
                        [i := Some (f\<lparr>NetworkFilter.Config := HTTPConfig cfg2\<rparr>)]\<rparr>
              \<and> length (HTTPFilterConfig.Filters cfg2) =
                  length (HTTPFilterConfig.Filters cfg) + 2
              \<and> HTTPFilterConfig.Filters cfg2 ! 0 = h
              \<and> HTTPFilterConfig.Filters cfg2 ! 1 = h
              \<and> HTTPFilterConfig.Filters cfg2 = h # h # HTTPFilterConfig.Filters cfg
              \<and> HTTPFilterConfig.Other cfg2 = HTTPFilterConfig.Other cfg))"
proof (intro conjI impI)
  assume tcp: "Split (Listener.Name l) listenerNameSeparator ! 0 = ''tcp''"
  let ?l1 = "l\<lparr>Listener.Filters := Some authzTCP # Listener.Filters l\<rparr>"
  let ?l2 = "?l1\<lparr>Listener.Filters := Some authzTCP # Listener.Filters ?l1\<rparr>"
  have 1: "updateListener l ip = Inr ?l1"
    using assms(1) tcp assms(2) by (rule updateListener_tcp_result)
  have "updateListener ?l1 ip =
      Inr (?l1\<lparr>Listener.Filters := Some authzTCP # Listener.Filters ?l1\<rparr>)"
    using assms tcp by (intro updateListener_tcp_result) simp_all
  then have 2: "updateListener ?l1 ip = Inr ?l2"
    by simp
  have "updateListener l ip = Inr ?l1 \<and> updateListener ?l1 ip = Inr ?l2
      \<and> authzTCP = \<lparr>NetworkFilter.Type = ''read'', NetworkFilter.Name = ''envoy.ext_authz'',
                     NetworkFilter.Config = AuthzConfig
                       \<lparr>StatPrefix = ''envoy.ext_authz'',
                        GrpcCluster = Some \<lparr>ClusterName = ''calico.dikastes''\<rparr>\<rparr>\<rparr>
      \<and> length (Listener.Filters ?l2) = length (Listener.Filters l) + 2
      \<and> Listener.Filters ?l2 ! 0 = Some authzTCP
      \<and> Listener.Filters ?l2 ! 1 = Some authzTCP
      \<and> Listener.Filters ?l2 = Some authzTCP # Some authzTCP # Listener.Filters l"
    using 1 2 authzTCP_fields by simp
  then show "\<exists>l1 l2 t. updateListener l ip = Inr l1 \<and> updateListener l1 ip = Inr l2
              \<and> t = \<lparr>NetworkFilter.Type = ''read'', NetworkFilter.Name = ''envoy.ext_authz'',
                     NetworkFilter.Config = AuthzConfig
                       \<lparr>StatPrefix = ''envoy.ext_authz'',
                        GrpcCluster = Some \<lparr>ClusterName = ''calico.dikastes''\<rparr>\<rparr>\<rparr>
              \<and> length (Listener.Filters l2) = length (Listener.Filters l) + 2
              \<and> Listener.Filters l2 ! 0 = Some t
              \<and> Listener.Filters l2 ! 1 = Some t
              \<and> Listener.Filters l2 = Some t # Some t # Listener.Filters l"
    by blast
next
  assume h: "Split (Listener.Name l) listenerNameSeparator ! 0 = ''http''
           \<and> i < length (Listener.Filters l)
           \<and> Listener.Filters l ! i = Some f
           \<and> NetworkFilter.Name f = HTTPConnectionManager
           \<and> (\<forall>j<i. \<exists>g. Listener.Filters l ! j = Some g
                  \<and> NetworkFilter.Name g \<noteq> HTTPConnectionManager)
           \<and> NetworkFilter.Config f = HTTPConfig cfg"
  let ?cfg1 = "cfg\<lparr>HTTPFilterConfig.Filters := authzHttp # HTTPFilterConfig.Filters cfg\<rparr>"
  let ?f1 = "f\<lparr>NetworkFilter.Config := HTTPConfig ?cfg1\<rparr>"
  let ?l1 = "l\<lparr>Listener.Filters := (Listener.Filters l)[i := Some ?f1]\<rparr>"
  let ?cfg2 = "?cfg1\<lparr>HTTPFilterConfig.Filters := authzHttp # HTTPFilterConfig.Filters ?cfg1\<rparr>"
  let ?f2 = "?f1\<lparr>NetworkFilter.Config := HTTPConfig ?cfg2\<rparr>"
  let ?l2 = "?l1\<lparr>Listener.Filters := (Listener.Filters ?l1)[i := Some ?f2]\<rparr>"
  have 1: "updateListener l ip = Inr ?l1"
    using assms h by (intro updateListener_http_result) simp_all
  have before: "\<forall>j<i. \<exists>g. Listener.Filters ?l1 ! j = Some g
                  \<and> NetworkFilter.Name g \<noteq> HTTPConnectionManager"
    using h by simp
  have 2: "updateListener ?l1 ip = Inr ?l2"
    using assms h before by (intro updateListener_http_result) simp_all
  have l2: "?l2 = l\<lparr>Listener.Filters := (Listener.Filters l)
                        [i := Some (f\<lparr>NetworkFilter.Config := HTTPConfig ?cfg2\<rparr>)]\<rparr>"
    by simp
  have "updateListener l ip = Inr ?l1 \<and> updateListener ?l1 ip = Inr ?l2
      \<and> authzHttp = \<lparr>HTTPFilter.Type = ''decoder'', HTTPFilter.Name = ''envoy.ext_authz'',
                     HTTPFilter.Config = AuthzValue
                       \<lparr>StatPrefix = [],
                        GrpcCluster = Some \<lparr>ClusterName = ''calico.dikastes''\<rparr>\<rparr>\<rparr>
      \<and> ?l2 = l\<lparr>Listener.Filters := (Listener.Filters l)
                        [i := Some (f\<lparr>NetworkFilter.Config := HTTPConfig ?cfg2\<rparr>)]\<rparr>
      \<and> length (HTTPFilterConfig.Filters ?cfg2) =
                  length (HTTPFilterConfig.Filters cfg) + 2
      \<and> HTTPFilterConfig.Filters ?cfg2 ! 0 = authzHttp
      \<and> HTTPFilterConfig.Filters ?cfg2 ! 1 = authzHttp
      \<and> HTTPFilterConfig.Filters ?cfg2 = authzHttp # authzHttp # HTTPFilterConfig.Filters cfg
      \<and> HTTPFilterConfig.Other ?cfg2 = HTTPFilterConfig.Other cfg"
    using 1 2 l2 authzHttp_fields by simp
  then show "\<exists>l1 l2 cfg2 h. updateListener l ip = Inr l1 \<and> updateListener l1 ip = Inr l2
              \<and> h = \<lparr>HTTPFilter.Type = ''decoder'', HTTPFilter.Name = ''envoy.ext_authz'',
                     HTTPFilter.Config = AuthzValue
                       \<lparr>StatPrefix = [],
                        GrpcCluster = Some \<lparr>ClusterName = ''calico.dikastes''\<rparr>\<rparr>\<rparr>
              \<and> l2 = l\<lparr>Listener.Filters := (Listener.Filters l)
                        [i := Some (f\<lparr>NetworkFilter.Config := HTTPConfig cfg2\<rparr>)]\<rparr>
              \<and> length (HTTPFilterConfig.Filters cfg2) =
                  length (HTTPFilterConfig.Filters cfg) + 2
              \<and> HTTPFilterConfig.Filters cfg2 ! 0 = h
              \<and> HTTPFilterConfig.Filters cfg2 ! 1 = h
              \<and> HTTPFilterConfig.Filters cfg2 = h # h # HTTPFilterConfig.Filters cfg
              \<and> HTTPFilterConfig.Other cfg2 = HTTPFilterConfig.Other cfg"
    by blast
qed

theorem updateListener_twice_witness:
  "2 \<le> length (Split ''tcp_1.2.3.4_76'' listenerNameSeparator)
   \<and> Split ''tcp_1.2.3.4_76'' listenerNameSeparator ! 1 = ''1.2.3.4''
   \<and> Split ''tcp_1.2.3.4_76'' listenerNameSeparator ! 0 = ''tcp''
   \<and> (\<exists>l1 l2.
         updateListener
           \<lparr>Listener.Name = ''tcp_1.2.3.4_76'',
            Listener.Filters =
              [Some \<lparr>NetworkFilter.Type = ''read'', NetworkFilter.Name = ''tcp_proxy'',
                 NetworkFilter.Config = NilConfig\<rparr>],
            Listener.Other = []\<rparr> ''1.2.3.4'' = Inr l1
         \<and> updateListener l1 ''1.2.3.4'' = Inr l2
         \<and> Listener.Filters l2 =
             [Some \<lparr>NetworkFilter.Type = ''read'', NetworkFilter.Name = ''envoy.ext_authz'',
                NetworkFilter.Config = AuthzConfig
                  \<lparr>StatPrefix = ''envoy.ext_authz'',
                   GrpcCluster = Some \<lparr>ClusterName = ''calico.dikastes''\<rparr>\<rparr>\<rparr>,
              Some \<lparr>NetworkFilter.Type = ''read'', NetworkFilter.Name = ''envoy.ext_authz'',
                NetworkFilter.Config = AuthzConfig
                  \<lparr>StatPrefix = ''envoy.ext_authz'',
                   GrpcCluster = Some \<lparr>ClusterName = ''calico.dikastes''\<rparr>\<rparr>\<rparr>,
              Some \<lparr>NetworkFilter.Type = ''read'', NetworkFilter.Name = ''tcp_proxy'',
                NetworkFilter.Config = NilConfig\<rparr>])
   \<and> 2 \<le> length (Split ''http_3.4.5.6_43'' listenerNameSeparator)
   \<and> Split ''http_3.4.5.6_43'' listenerNameSeparator ! 1 = ''3.4.5.6''
   \<and> Split ''http_3.4.5.6_43'' listenerNameSeparator ! 0 = ''http''
   \<and> (\<exists>l1 l2.
         updateListener
           \<lparr>Listener.Name = ''http_3.4.5.6_43'',
            Listener.Filters =
              [Some \<lparr>NetworkFilter.Type = ''read'', NetworkFilter.Name = ''tcp_proxy'',
                 NetworkFilter.Config = NilConfig\<rparr>,
               Some \<lparr>NetworkFilter.Type = ''read'', NetworkFilter.Name = HTTPConnectionManager,
                 NetworkFilter.Config = HTTPConfig
                   \<lparr>HTTPFilterConfig.Filters =
                      [\<lparr>HTTPFilter.Type = [], HTTPFilter.Name = ''cors'',
                        HTTPFilter.Config = NilValue\<rparr>],
                    HTTPFilterConfig.Other = []\<rparr>\<rparr>],
            Listener.Other = []\<rparr> ''3.4.5.6'' = Inr l1
         \<and> updateListener l1 ''3.4.5.6'' = Inr l2
         \<and> l2 =
           \<lparr>Listener.Name = ''http_3.4.5.6_43'',
            Listener.Filters =
              [Some \<lparr>NetworkFilter.Type = ''read'', NetworkFilter.Name = ''tcp_proxy'',
                 NetworkFilter.Config = NilConfig\<rparr>,
               Some \<lparr>NetworkFilter.Type = ''read'', NetworkFilter.Name = HTTPConnectionManager,
                 NetworkFilter.Config = HTTPConfig
                   \<lparr>HTTPFilterConfig.Filters =
                      [\<lparr>HTTPFilter.Type = ''decoder'', HTTPFilter.Name = ''envoy.ext_authz'',
                        HTTPFilter.Config = AuthzValue
                          \<lparr>StatPrefix = [],
                           GrpcCluster = Some \<lparr>ClusterName = ''calico.dikastes''\<rparr>\<rparr>\<rparr>,
                       \<lparr>HTTPFilter.Type = ''decoder'', HTTPFilter.Name = ''envoy.ext_authz'',
                        HTTPFilter.Config = AuthzValue
                          \<lparr>StatPrefix = [],
                           GrpcCluster = Some \<lparr>ClusterName = ''calico.dikastes''\<rparr>\<rparr>\<rparr>,
                       \<lparr>HTTPFilter.Type = [], HTTPFilter.Name = ''cors'',
                        HTTPFilter.Config = NilValue\<rparr>],
                    HTTPFilterConfig.Other = []\<rparr>\<rparr>],
            Listener.Other = []\<rparr>)"
proof -
  let ?p = "\<lparr>NetworkFilter.Type = ''read'', NetworkFilter.Name = ''tcp_proxy'',
                 NetworkFilter.Config = NilConfig\<rparr>"
  let ?t = "\<lparr>Listener.Name = ''tcp_1.2.3.4_76'', Listener.Filters = [Some ?p],
            Listener.Other = []\<rparr>"
  let ?cfg = "\<lparr>HTTPFilterConfig.Filters =
                      [\<lparr>HTTPFilter.Type = [], HTTPFilter.Name = ''cors'',
                        HTTPFilter.Config = NilValue\<rparr>],
                    HTTPFilterConfig.Other = []\<rparr>"
  let ?f = "\<lparr>NetworkFilter.Type = ''read'', NetworkFilter.Name = HTTPConnectionManager,
                 NetworkFilter.Config = HTTPConfig ?cfg\<rparr>"
  let ?h = "\<lparr>Listener.Name = ''http_3.4.5.6_43'', Listener.Filters = [Some ?p, Some ?f],
            Listener.Other = []\<rparr>"
  have t1: "2 \<le> length (Split (Listener.Name ?t) listenerNameSeparator)"
    by (simp add: listenerNameSeparator_def)
  have t2: "Split (Listener.Name ?t) listenerNameSeparator ! 1 = ''1.2.3.4''"
    by (simp add: listenerNameSeparator_def)
  have t3: "Split (Listener.Name ?t) listenerNameSeparator ! 0 = ''tcp''"
    by (simp add: listenerNameSeparator_def)
  have h1: "2 \<le> length (Split (Listener.Name ?h) listenerNameSeparator)"
    by (simp add: listenerNameSeparator_def)
  have h2: "Split (Listener.Name ?h) listenerNameSeparator ! 1 = ''3.4.5.6''"
    by (simp add: listenerNameSeparator_def)
  have h3: "Split (Listener.Name ?h) listenerNameSeparator ! 0 = ''http''
           \<and> 1 < length (Listener.Filters ?h)
           \<and> Listener.Filters ?h ! 1 = Some ?f
           \<and> NetworkFilter.Name ?f = HTTPConnectionManager
           \<and> (\<forall>j<1. \<exists>g. Listener.Filters ?h ! j = Some g
                  \<and> NetworkFilter.Name g \<noteq> HTTPConnectionManager)
           \<and> NetworkFilter.Config ?f = HTTPConfig ?cfg"
    by (simp add: listenerNameSeparator_def HTTPConnectionManager_def)
  have tcp: "\<exists>l1 l2 t. updateListener ?t ''1.2.3.4'' = Inr l1
      \<and> updateListener l1 ''1.2.3.4'' = Inr l2
      \<and> t = \<lparr>NetworkFilter.Type = ''read'', NetworkFilter.Name = ''envoy.ext_authz'',
                     NetworkFilter.Config = AuthzConfig
                       \<lparr>StatPrefix = ''envoy.ext_authz'',
                        GrpcCluster = Some \<lparr>ClusterName = ''calico.dikastes''\<rparr>\<rparr>\<rparr>
      \<and> Listener.Filters l2 = Some t # Some t # Listener.Filters ?t"
    using updateListener_twice [OF t1 t2] t3 by blast
  have http: "\<exists>l1 l2 cfg2 h. updateListener ?h ''3.4.5.6'' = Inr l1
      \<and> updateListener l1 ''3.4.5.6'' = Inr l2
      \<and> h = \<lparr>HTTPFilter.Type = ''decoder'', HTTPFilter.Name = ''envoy.ext_authz'',
                     HTTPFilter.Config = AuthzValue
                       \<lparr>StatPrefix = [],
                        GrpcCluster = Some \<lparr>ClusterName = ''calico.dikastes''\<rparr>\<rparr>\<rparr>
      \<and> l2 = ?h\<lparr>Listener.Filters := (Listener.Filters ?h)
                        [1 := Some (?f\<lparr>NetworkFilter.Config := HTTPConfig cfg2\<rparr>)]\<rparr>
      \<and> HTTPFilterConfig.Filters cfg2 = h # h # HTTPFilterConfig.Filters ?cfg
      \<and> HTTPFilterConfig.Other cfg2 = HTTPFilterConfig.Other ?cfg"
    using updateListener_twice [OF h1 h2, of 1 ?f ?cfg] h3 by blast
  from tcp obtain a1 a2 where a: "updateListener ?t ''1.2.3.4'' = Inr a1"
      "updateListener a1 ''1.2.3.4'' = Inr a2"
      "Listener.Filters a2 =
         [Some \<lparr>NetworkFilter.Type = ''read'', NetworkFilter.Name = ''envoy.ext_authz'',
                NetworkFilter.Config = AuthzConfig
                  \<lparr>StatPrefix = ''envoy.ext_authz'',
                   GrpcCluster = Some \<lparr>ClusterName = ''calico.dikastes''\<rparr>\<rparr>\<rparr>,
          Some \<lparr>NetworkFilter.Type = ''read'', NetworkFilter.Name = ''envoy.ext_authz'',
                NetworkFilter.Config = AuthzConfig
                  \<lparr>StatPrefix = ''envoy.ext_authz'',
                   GrpcCluster = Some \<lparr>ClusterName = ''calico.dikastes''\<rparr>\<rparr>\<rparr>,
          Some ?p]"
    by auto
  from http obtain b1 b2 cfg2 where b: "updateListener ?h ''3.4.5.6'' = Inr b1"
      "updateListener b1 ''3.4.5.6'' = Inr b2"
      "b2 = ?h\<lparr>Listener.Filters := (Listener.Filters ?h)
                        [1 := Some (?f\<lparr>NetworkFilter.Config := HTTPConfig cfg2\<rparr>)]\<rparr>"
      "HTTPFilterConfig.Filters cfg2 =
         [\<lparr>HTTPFilter.Type = ''decoder'', HTTPFilter.Name = ''envoy.ext_authz'',
                        HTTPFilter.Config = AuthzValue
                          \<lparr>StatPrefix = [],
                           GrpcCluster = Some \<lparr>ClusterName = ''calico.dikastes''\<rparr>\<rparr>\<rparr>,
          \<lparr>HTTPFilter.Type = ''decoder'', HTTPFilter.Name = ''envoy.ext_authz'',
                        HTTPFilter.Config = AuthzValue
                          \<lparr>StatPrefix = [],
                           GrpcCluster = Some \<lparr>ClusterName = ''calico.dikastes''\<rparr>\<rparr>\<rparr>,
          \<lparr>HTTPFilter.Type = [], HTTPFilter.Name = ''cors'', HTTPFilter.Config = NilValue\<rparr>]"
      "HTTPFilterConfig.Other cfg2 = []"
    by auto
  from b have b2: "b2 =
           \<lparr>Listener.Name = ''http_3.4.5.6_43'',
            Listener.Filters =
              [Some ?p,
               Some \<lparr>NetworkFilter.Type = ''read'', NetworkFilter.Name = HTTPConnectionManager,
                 NetworkFilter.Config = HTTPConfig
                   \<lparr>HTTPFilterConfig.Filters =
                      [\<lparr>HTTPFilter.Type = ''decoder'', HTTPFilter.Name = ''envoy.ext_authz'',
                        HTTPFilter.Config = AuthzValue
                          \<lparr>StatPrefix = [],
                           GrpcCluster = Some \<lparr>ClusterName = ''calico.dikastes''\<rparr>\<rparr>\<rparr>,
                       \<lparr>HTTPFilter.Type = ''decoder'', HTTPFilter.Name = ''envoy.ext_authz'',
                        HTTPFilter.Config = AuthzValue
                          \<lparr>StatPrefix = [],
                           GrpcCluster = Some \<lparr>ClusterName = ''calico.dikastes''\<rparr>\<rparr>\<rparr>,
                       \<lparr>HTTPFilter.Type = [], HTTPFilter.Name = ''cors'',
                        HTTPFilter.Config = NilValue\<rparr>],
                    HTTPFilterConfig.Other = []\<rparr>\<rparr>],
            Listener.Other = []\<rparr>"
    by (cases cfg2) simp
  show ?thesis
    using t1 t2 t3 h1 h2 h3 a b(1,2) b2 by simp
qed

subsection \<open>Names outside the convention\<close>

text \<open>
  Claim C4. The name of the entry below has the first token \<^verbatim>\<open>mongo\<close>, neither
  \<^verbatim>\<open>http\<close> nor \<^verbatim>\<open>tcp\<close>, and the address of the proxy as second token. The claim is that
  \<open>updateListener\<close> leaves such an entry as it is. It does not: \<open>proto\<close> keeps the value 0
  that it was declared with, which is \<open>HTTP\<close>, and the entry is updated as an HTTP
  listener (see \<open>updateListener_unknown_protocol\<close>). With a connection manager among its
  filters, the entry receives the HTTP authorization filter.
\<close>

theorem unknown_protocol_updated_as_http:
  "updateListener
     \<lparr>Listener.Name = ''mongo_1.2.3.4_27017'',
      Listener.Filters =
        [Some \<lparr>NetworkFilter.Type = ''read'', NetworkFilter.Name = HTTPConnectionManager,
          NetworkFilter.Config = HTTPConfig
            \<lparr>HTTPFilterConfig.Filters =
               [\<lparr>HTTPFilter.Type = [], HTTPFilter.Name = ''cors'',
                 HTTPFilter.Config = NilValue\<rparr>],
             HTTPFilterConfig.Other = []\<rparr>\<rparr>],
      Listener.Other = []\<rparr> ''1.2.3.4'' =
   Inr \<lparr>Listener.Name = ''mongo_1.2.3.4_27017'',
        Listener.Filters =
          [Some \<lparr>NetworkFilter.Type = ''read'', NetworkFilter.Name = HTTPConnectionManager,
            NetworkFilter.Config = HTTPConfig
              \<lparr>HTTPFilterConfig.Filters =
                 [\<lparr>HTTPFilter.Type = ''decoder'', HTTPFilter.Name = ''envoy.ext_authz'',
                   HTTPFilter.Config = AuthzValue
                     \<lparr>StatPrefix = [],
                      GrpcCluster = Some \<lparr>ClusterName = ''calico.dikastes''\<rparr>\<rparr>\<rparr>,
                  \<lparr>HTTPFilter.Type = [], HTTPFilter.Name = ''cors'',
                   HTTPFilter.Config = NilValue\<rparr>],
               HTTPFilterConfig.Other = []\<rparr>\<rparr>],
        Listener.Other = []\<rparr>"
  by (simp add: updateListener_def classifyListener_def index_def listenerNameSeparator_def
      updateHTTPListener_def authzHttp_def authzHttpConfig_def AuthZFilterName_def
      AuthZClusterName_def INBOUND_def OUTBOUND_def VIRTUAL_def HTTP_def TCP_def)

text \<open>
  Claim C5, as amended. A listener entry whose name is not \<^verbatim>\<open>virtual\<close> and has fewer than
  two tokens, that is, no separator: the first token is the whole name and the access to
  it is in range, the access to the second token is out of range, \<open>classifyListener\<close> and
  \<open>updateListener\<close> panic, and so does \<open>listeners\<close> on every document of a sidecar proxy
  that holds the entry: the handler writes no document.
\<close>

theorem malformed_name_panics:
  assumes "Listener.Name l \<noteq> ''virtual''"
    and "length (Split (Listener.Name l) listenerNameSeparator) < 2"
  shows "index (Split (Listener.Name l) listenerNameSeparator) 0 = Inr (Listener.Name l)
      \<and> index (Split (Listener.Name l) listenerNameSeparator) 1 = Inl IndexOutOfRange
      \<and> classifyListener l ip = Inl IndexOutOfRange
      \<and> updateListener l ip = Inl IndexOutOfRange
      \<and> (2 \<le> length (Split (serviceNode req) serviceNodeSeparator)
           \<and> Split (serviceNode req) serviceNodeSeparator ! 0 = ''sidecar''
           \<and> Split (serviceNode req) serviceNodeSeparator ! 1 = ip
           \<and> ReadAll (Body req) = Some body
           \<and> Unmarshal body = Some lds
           \<and> Some l \<in> set (Listeners lds) \<longrightarrow>
          (\<exists>p. listeners Unmarshal Marshal req resp = Inl p))"
proof -
  have one: "Split (Listener.Name l) listenerNameSeparator = [Listener.Name l]"
    using assms(2) by (simp add: Split_short_iff Split_no_separator)
  have upd: "updateListener l ip = Inl IndexOutOfRange"
    using assms by (rule updateListener_short)
  have doc: "\<exists>p. listeners Unmarshal Marshal req resp = Inl p"
    if h: "2 \<le> length (Split (serviceNode req) serviceNodeSeparator)
           \<and> Split (serviceNode req) serviceNodeSeparator ! 0 = ''sidecar''
           \<and> Split (serviceNode req) serviceNodeSeparator ! 1 = ip
           \<and> ReadAll (Body req) = Some body
           \<and> Unmarshal body = Some lds
           \<and> Some l \<in> set (Listeners lds)"
  proof -
    from h upd obtain q where "updateListeners (Listeners lds) ip = Inl q"
      using updateListeners_panics by blast
    with h show ?thesis
      by (simp add: listeners_def index_def Let_def)
  qed
  show ?thesis
    using one upd doc assms by (simp add: index_def classifyListener_short)
qed

theorem malformed_name_panics_witness:
  "''inbound'' \<noteq> ''virtual''
   \<and> length (Split ''inbound'' listenerNameSeparator) < 2
   \<and> index (Split ''inbound'' listenerNameSeparator) 0 = Inr ''inbound''
   \<and> index (Split ''inbound'' listenerNameSeparator) 1 = Inl IndexOutOfRange
   \<and> classifyListener
       \<lparr>Listener.Name = ''inbound'', Listener.Filters = [], Listener.Other = []\<rparr> ''3.4.5.6''
     = Inl IndexOutOfRange
   \<and> updateListener
       \<lparr>Listener.Name = ''inbound'', Listener.Filters = [], Listener.Other = []\<rparr> ''3.4.5.6''
     = Inl IndexOutOfRange
   \<and> (\<exists>p. listeners
       [''{}'' \<mapsto>
          \<lparr>Listeners =
             [Some \<lparr>Listener.Name = ''http_0.0.0.0_80'', Listener.Filters = [],
                Listener.Other = []\<rparr>,
              Some \<lparr>Listener.Name = ''inbound'', Listener.Filters = [],
                Listener.Other = []\<rparr>]\<rparr>]
       Map.empty
       \<lparr>serviceNode = ''sidecar~3.4.5.6~other~items'',
        Body = \<lparr>data = ''{}'', fails = False\<rparr>\<rparr>
       NewResponse
     = Inl p)"
proof -
  let ?l = "\<lparr>Listener.Name = ''inbound'', Listener.Filters = [], Listener.Other = []\<rparr>"
  let ?lds = "\<lparr>Listeners =
             [Some \<lparr>Listener.Name = ''http_0.0.0.0_80'', Listener.Filters = [],
                Listener.Other = []\<rparr>, Some ?l]\<rparr>"
  let ?req = "\<lparr>serviceNode = ''sidecar~3.4.5.6~other~items'',
        Body = \<lparr>data = ''{}'', fails = False\<rparr>\<rparr>"
  have h1: "Listener.Name ?l \<noteq> ''virtual''"
    by simp
  have h2: "length (Split (Listener.Name ?l) listenerNameSeparator) < 2"
    by (simp add: listenerNameSeparator_def)
  have h3: "2 \<le> length (Split (serviceNode ?req) serviceNodeSeparator)
           \<and> Split (serviceNode ?req) serviceNodeSeparator ! 0 = ''sidecar''
           \<and> Split (serviceNode ?req) serviceNodeSeparator ! 1 = ''3.4.5.6''
           \<and> ReadAll (Body ?req) = Some ''{}''
           \<and> [''{}'' \<mapsto> ?lds] ''{}'' = Some ?lds
           \<and> Some ?l \<in> set (Listeners ?lds)"
    by (simp add: serviceNodeSeparator_def ReadAll_def)
  show ?thesis
    using h1 h2 h3
      malformed_name_panics [OF h1 h2, of "''3.4.5.6''" ?req "''{}''" "[''{}'' \<mapsto> ?lds]"
        ?lds Map.empty NewResponse]
    by simp
qed

text \<open>
  The claim C5 as it is stated, that such an entry is skipped and the rest of the document
  is still processed and returned, fails on a document of two entries, the second one
  named \<^verbatim>\<open>inbound\<close>.
\<close>

theorem malformed_name_counterexample:
  "''inbound'' \<noteq> ''virtual''
   \<and> length (Split ''inbound'' listenerNameSeparator) < 2
   \<and> updateListener
       \<lparr>Listener.Name = ''inbound'', Listener.Filters = [], Listener.Other = []\<rparr> ''3.4.5.6''
     = Inl IndexOutOfRange
   \<and> listeners
       [''{}'' \<mapsto>
          \<lparr>Listeners =
             [Some \<lparr>Listener.Name = ''http_0.0.0.0_80'', Listener.Filters = [],
                Listener.Other = []\<rparr>,
              Some \<lparr>Listener.Name = ''inbound'', Listener.Filters = [],
                Listener.Other = []\<rparr>]\<rparr>]
       Map.empty
       \<lparr>serviceNode = ''sidecar~3.4.5.6~other~items'',
        Body = \<lparr>data = ''{}'', fails = False\<rparr>\<rparr>
       NewResponse
     = Inl IndexOutOfRange"
  by (simp add: listeners_def updateListener_def classifyListener_def index_def ReadAll_def
      listenerNameSeparator_def serviceNodeSeparator_def
      INBOUND_def OUTBOUND_def VIRTUAL_def HTTP_def TCP_def)

subsection \<open>The handlers\<close>

text \<open>
  Claim C6. For a cluster document that is read and decoded, \<open>clusters\<close> encodes and
  writes a document \<open>cds'\<close>. With the option \<open>SetCluster\<close> its clusters are the clusters of
  the request, unchanged and in their order, followed by exactly one more: the cluster
  \<^verbatim>\<open>calico.dikastes\<close> with a connect timeout of 5000 ms, the static type, a circuit breaker
  of 10000 pending requests and 10000 requests, round-robin load balancing, the HTTP/2
  feature, and the single host \<^verbatim>\<open>unix:///var/run/dikastes/dikastes.sock\<close>. Without the
  option the clusters are those of the request.
\<close>

theorem clusters_appends_dikastes:
  assumes "\<not> fails (Body req)"
    and "Unmarshal (data (Body req)) = Some cds"
  shows "\<exists>cds'. clusters configOptions Unmarshal Marshal req resp =
           (case Marshal cds' of None \<Rightarrow> resp | Some out \<Rightarrow> Write resp out)
      \<and> Clusters cds' =
          (if SetCluster configOptions
           then Clusters cds @
             [\<lparr>Cluster.Name = ''calico.dikastes'',
               ConnectTimeoutMs = 5000,
               Cluster.Type = ClusterTypeStatic,
               CircuitBreaker =
                 Some \<lparr>Default = \<lparr>MaxPendingRequests = 10000, MaxRequests = 10000\<rparr>\<rparr>,
               LbType = LbTypeRoundRobin,
               Features = ClusterFeatureHTTP2,
               Hosts = [\<lparr>URL = ''unix:///var/run/dikastes/dikastes.sock''\<rparr>],
               Cluster.Other = []\<rparr>]
           else Clusters cds)"
proof (cases "SetCluster configOptions")
  case True
  have "clusters configOptions Unmarshal Marshal req resp =
      (case Marshal (cds\<lparr>Clusters := Clusters cds @ [dikastesCluster]\<rparr>) of
         None \<Rightarrow> resp | Some out \<Rightarrow> Write resp out)"
    using assms True by (simp add: clusters_def ReadAll_def)
  moreover have "Clusters (cds\<lparr>Clusters := Clusters cds @ [dikastesCluster]\<rparr>) =
      Clusters cds @
             [\<lparr>Cluster.Name = ''calico.dikastes'',
               ConnectTimeoutMs = 5000,
               Cluster.Type = ClusterTypeStatic,
               CircuitBreaker =
                 Some \<lparr>Default = \<lparr>MaxPendingRequests = 10000, MaxRequests = 10000\<rparr>\<rparr>,
               LbType = LbTypeRoundRobin,
               Features = ClusterFeatureHTTP2,
               Hosts = [\<lparr>URL = ''unix:///var/run/dikastes/dikastes.sock''\<rparr>],
               Cluster.Other = []\<rparr>]"
    by (simp add: dikastesCluster_def AuthZClusterName_def DikastesSocketDir_def)
  ultimately show ?thesis
    using True by auto
next
  case False
  have "clusters configOptions Unmarshal Marshal req resp =
      (case Marshal cds of None \<Rightarrow> resp | Some out \<Rightarrow> Write resp out)"
    using assms False by (simp add: clusters_def ReadAll_def)
  then show ?thesis
    using False by auto
qed

theorem clusters_appends_dikastes_witness:
  "\<not> fails \<lparr>data = ''{}'', fails = False\<rparr>
   \<and> clusters \<lparr>SetCluster = True\<rparr>
       [''{}'' \<mapsto>
          \<lparr>Clusters =
             [\<lparr>Cluster.Name = ''out.something.com|http'', ConnectTimeoutMs = 0,
               Cluster.Type = [], CircuitBreaker = None, LbType = [], Features = [],
               Hosts = [], Cluster.Other = []\<rparr>]\<rparr>]
       [\<lparr>Clusters =
           [\<lparr>Cluster.Name = ''out.something.com|http'', ConnectTimeoutMs = 0,
             Cluster.Type = [], CircuitBreaker = None, LbType = [], Features = [],
             Hosts = [], Cluster.Other = []\<rparr>,
            \<lparr>Cluster.Name = ''calico.dikastes'', ConnectTimeoutMs = 5000,
             Cluster.Type = ClusterTypeStatic,
             CircuitBreaker =
               Some \<lparr>Default = \<lparr>MaxPendingRequests = 10000, MaxRequests = 10000\<rparr>\<rparr>,
             LbType = LbTypeRoundRobin, Features = ClusterFeatureHTTP2,
             Hosts = [\<lparr>URL = ''unix:///var/run/dikastes/dikastes.sock''\<rparr>],
             Cluster.Other = []\<rparr>]\<rparr> \<mapsto> ''two clusters'']
       \<lparr>serviceNode = ''sidecar~3.4.5.6~other~items'',
        Body = \<lparr>data = ''{}'', fails = False\<rparr>\<rparr>
       NewResponse =
     \<lparr>statusCode = 200, written = ''two clusters''\<rparr>"
proof -
  let ?c = "\<lparr>Cluster.Name = ''out.something.com|http'', ConnectTimeoutMs = 0,
               Cluster.Type = [], CircuitBreaker = None, LbType = [], Features = [],
               Hosts = [], Cluster.Other = []\<rparr>"
  let ?d = "\<lparr>Cluster.Name = ''calico.dikastes'', ConnectTimeoutMs = 5000,
             Cluster.Type = ClusterTypeStatic,
             CircuitBreaker =
               Some \<lparr>Default = \<lparr>MaxPendingRequests = 10000, MaxRequests = 10000\<rparr>\<rparr>,
             LbType = LbTypeRoundRobin, Features = ClusterFeatureHTTP2,
             Hosts = [\<lparr>URL = ''unix:///var/run/dikastes/dikastes.sock''\<rparr>],
             Cluster.Other = []\<rparr>"
  let ?req = "\<lparr>serviceNode = ''sidecar~3.4.5.6~other~items'',
        Body = \<lparr>data = ''{}'', fails = False\<rparr>\<rparr>"
  let ?U = "[''{}'' \<mapsto> \<lparr>Clusters = [?c]\<rparr>]"
  let ?M = "[\<lparr>Clusters = [?c, ?d]\<rparr> \<mapsto> ''two clusters'']"
  have h1: "\<not> fails (Body ?req)"
    by simp
  have h2: "?U (data (Body ?req)) = Some \<lparr>Clusters = [?c]\<rparr>"
    by simp
  from clusters_appends_dikastes [where req = ?req and Unmarshal = ?U
      and cds = "\<lparr>Clusters = [?c]\<rparr>" and configOptions = "\<lparr>SetCluster = True\<rparr>"
      and Marshal = ?M and resp = NewResponse, OF h1 h2]
  obtain cds' where
    "clusters \<lparr>SetCluster = True\<rparr> ?U ?M ?req NewResponse =
       (case ?M cds' of None \<Rightarrow> NewResponse | Some out \<Rightarrow> Write NewResponse out)"
    "Clusters cds' = [?c, ?d]"
    by auto
  then show ?thesis
    by (cases cds') (simp add: Write_def NewResponse_def StatusOK_def)
qed

text \<open>
  Claim C7. A listener request of a proxy whose role, the first token of its service node,
  is not \<^verbatim>\<open>sidecar\<close>: the response has status 200 and its body is the body of the
  request, byte for byte. The decoder plays no part: the statement holds for every
  \<open>Unmarshal\<close>, also one that rejects the body. The service node has at least two tokens,
  which is the invariant of the proxy descriptor; \<open>listeners_malformed_descriptor\<close> is
  the other case.
\<close>

theorem listeners_not_sidecar:
  assumes "2 \<le> length (Split (serviceNode req) serviceNodeSeparator)"
    and "Split (serviceNode req) serviceNodeSeparator ! 0 \<noteq> ''sidecar''"
  shows "listeners Unmarshal Marshal req NewResponse =
           Inr \<lparr>statusCode = 200, written = data (Body req)\<rparr>"
  using assms
  by (simp add: listeners_def index_def Split_not_Nil Let_def io_Copy_def Write_def
      NewResponse_def StatusOK_def)

theorem listeners_not_sidecar_witness:
  "2 \<le> length (Split ''ingress~3.4.5.6~other~items'' serviceNodeSeparator)
   \<and> Split ''ingress~3.4.5.6~other~items'' serviceNodeSeparator ! 0 \<noteq> ''sidecar''
   \<and> listeners Map.empty Map.empty
       \<lparr>serviceNode = ''ingress~3.4.5.6~other~items'',
        Body = \<lparr>data = ''not JSON'', fails = False\<rparr>\<rparr> NewResponse =
     Inr \<lparr>statusCode = 200, written = ''not JSON''\<rparr>"
proof -
  let ?req = "\<lparr>serviceNode = ''ingress~3.4.5.6~other~items'',
        Body = \<lparr>data = ''not JSON'', fails = False\<rparr>\<rparr>"
  have h1: "2 \<le> length (Split (serviceNode ?req) serviceNodeSeparator)"
    by (simp add: serviceNodeSeparator_def)
  have h2: "Split (serviceNode ?req) serviceNodeSeparator ! 0 \<noteq> ''sidecar''"
    by (simp add: serviceNodeSeparator_def)
  show ?thesis
    using h1 h2 listeners_not_sidecar [OF h1 h2, of Map.empty Map.empty] by simp
qed

text \<open>
  Claim C8. The claim is that a failed read of the request body yields a response with
  status 500 from either handler. \<open>listeners\<close> does so for a sidecar proxy (see
  \<open>listeners_read_failure\<close>). \<open>clusters\<close> does not: it logs the failure and returns
  without writing, which leaves the response at status 200 with an empty body.
\<close>

theorem clusters_read_failure:
  "clusters configOptions Unmarshal Marshal
     \<lparr>serviceNode = node, Body = \<lparr>data = d, fails = True\<rparr>\<rparr> NewResponse =
   \<lparr>statusCode = 200, written = []\<rparr>"
  by (simp add: clusters_def ReadAll_def NewResponse_def StatusOK_def)

subsection \<open>The two shapes of the authorization filter\<close>

text \<open>
  Claim C10, as amended. The authorization filter that \<open>updateListener\<close> inserts refers
  to the cluster \<^verbatim>\<open>calico.dikastes\<close> in both shapes. The network filter, inserted into an
  inbound TCP entry, carries a stat-prefix, which is the name of the filter. The HTTP
  filter, inserted into the connection manager of an inbound HTTP entry, is built without
  one: its \<^verbatim>\<open>StatPrefix\<close> is the empty string.
\<close>

theorem inserted_filter_configs:
  assumes "2 \<le> length (Split (Listener.Name l) listenerNameSeparator)"
    and "Split (Listener.Name l) listenerNameSeparator ! 1 = ip"
  shows "(Split (Listener.Name l) listenerNameSeparator ! 0 = ''tcp'' \<longrightarrow>
           (\<exists>l' t a. updateListener l ip = Inr l'
              \<and> Listener.Filters l' = Some t # Listener.Filters l
              \<and> NetworkFilter.Name t = ''envoy.ext_authz''
              \<and> NetworkFilter.Config t = AuthzConfig a
              \<and> StatPrefix a = ''envoy.ext_authz''
              \<and> StatPrefix a = NetworkFilter.Name t
              \<and> GrpcCluster a = Some \<lparr>ClusterName = ''calico.dikastes''\<rparr>))
      \<and> (Split (Listener.Name l) listenerNameSeparator ! 0 = ''http''
           \<and> i < length (Listener.Filters l)
           \<and> Listener.Filters l ! i = Some f
           \<and> NetworkFilter.Name f = HTTPConnectionManager
           \<and> (\<forall>j<i. \<exists>g. Listener.Filters l ! j = Some g
                  \<and> NetworkFilter.Name g \<noteq> HTTPConnectionManager)
           \<and> NetworkFilter.Config f = HTTPConfig cfg \<longrightarrow>
           (\<exists>l' cfg' h a. updateListener l ip = Inr l'
              \<and> Listener.Filters l' ! i = Some (f\<lparr>NetworkFilter.Config := HTTPConfig cfg'\<rparr>)
              \<and> HTTPFilterConfig.Filters cfg' = h # HTTPFilterConfig.Filters cfg
              \<and> HTTPFilter.Name h = ''envoy.ext_authz''
              \<and> HTTPFilter.Config h = AuthzValue a
              \<and> StatPrefix a = []
              \<and> GrpcCluster a = Some \<lparr>ClusterName = ''calico.dikastes''\<rparr>))"
proof (intro conjI impI)
  assume tcp: "Split (Listener.Name l) listenerNameSeparator ! 0 = ''tcp''"
  let ?l' = "l\<lparr>Listener.Filters := Some authzTCP # Listener.Filters l\<rparr>"
  have "updateListener l ip = Inr ?l'"
    using assms(1) tcp assms(2) by (rule updateListener_tcp_result)
  then have "updateListener l ip = Inr ?l'
      \<and> Listener.Filters ?l' = Some authzTCP # Listener.Filters l
      \<and> NetworkFilter.Name authzTCP = ''envoy.ext_authz''
      \<and> NetworkFilter.Config authzTCP = AuthzConfig authzTCPConfig
      \<and> StatPrefix authzTCPConfig = ''envoy.ext_authz''
      \<and> StatPrefix authzTCPConfig = NetworkFilter.Name authzTCP
      \<and> GrpcCluster authzTCPConfig = Some \<lparr>ClusterName = ''calico.dikastes''\<rparr>"
    by (simp add: authzTCP_def authzTCPConfig_def AuthZFilterName_def AuthZClusterName_def)
  then show "\<exists>l' t a. updateListener l ip = Inr l'
              \<and> Listener.Filters l' = Some t # Listener.Filters l
              \<and> NetworkFilter.Name t = ''envoy.ext_authz''
              \<and> NetworkFilter.Config t = AuthzConfig a
              \<and> StatPrefix a = ''envoy.ext_authz''
              \<and> StatPrefix a = NetworkFilter.Name t
              \<and> GrpcCluster a = Some \<lparr>ClusterName = ''calico.dikastes''\<rparr>"
    by blast
next
  assume h: "Split (Listener.Name l) listenerNameSeparator ! 0 = ''http''
           \<and> i < length (Listener.Filters l)
           \<and> Listener.Filters l ! i = Some f
           \<and> NetworkFilter.Name f = HTTPConnectionManager
           \<and> (\<forall>j<i. \<exists>g. Listener.Filters l ! j = Some g
                  \<and> NetworkFilter.Name g \<noteq> HTTPConnectionManager)
           \<and> NetworkFilter.Config f = HTTPConfig cfg"
  let ?cfg' = "cfg\<lparr>HTTPFilterConfig.Filters := authzHttp # HTTPFilterConfig.Filters cfg\<rparr>"
  let ?l' = "l\<lparr>Listener.Filters := (Listener.Filters l)
               [i := Some (f\<lparr>NetworkFilter.Config := HTTPConfig ?cfg'\<rparr>)]\<rparr>"
  have "updateListener l ip = Inr ?l'"
    using assms h by (intro updateListener_http_result) simp_all
  then have "updateListener l ip = Inr ?l'
      \<and> Listener.Filters ?l' ! i = Some (f\<lparr>NetworkFilter.Config := HTTPConfig ?cfg'\<rparr>)
      \<and> HTTPFilterConfig.Filters ?cfg' = authzHttp # HTTPFilterConfig.Filters cfg
      \<and> HTTPFilter.Name authzHttp = ''envoy.ext_authz''
      \<and> HTTPFilter.Config authzHttp = AuthzValue authzHttpConfig
      \<and> StatPrefix authzHttpConfig = []
      \<and> GrpcCluster authzHttpConfig = Some \<lparr>ClusterName = ''calico.dikastes''\<rparr>"
    using h
    by (simp add: authzHttp_def authzHttpConfig_def AuthZFilterName_def AuthZClusterName_def)
  then show "\<exists>l' cfg' h a. updateListener l ip = Inr l'
              \<and> Listener.Filters l' ! i = Some (f\<lparr>NetworkFilter.Config := HTTPConfig cfg'\<rparr>)
              \<and> HTTPFilterConfig.Filters cfg' = h # HTTPFilterConfig.Filters cfg
              \<and> HTTPFilter.Name h = ''envoy.ext_authz''
              \<and> HTTPFilter.Config h = AuthzValue a
              \<and> StatPrefix a = []
              \<and> GrpcCluster a = Some \<lparr>ClusterName = ''calico.dikastes''\<rparr>"
    by blast
qed

theorem inserted_filter_configs_witness:
  "2 \<le> length (Split ''tcp_10.0.0.1_3306'' listenerNameSeparator)
   \<and> Split ''tcp_10.0.0.1_3306'' listenerNameSeparator ! 1 = ''10.0.0.1''
   \<and> Split ''tcp_10.0.0.1_3306'' listenerNameSeparator ! 0 = ''tcp''
   \<and> (\<exists>l' t a.
         updateListener
           \<lparr>Listener.Name = ''tcp_10.0.0.1_3306'', Listener.Filters = [],
            Listener.Other = []\<rparr> ''10.0.0.1'' = Inr l'
         \<and> Listener.Filters l' = [Some t]
         \<and> NetworkFilter.Name t = ''envoy.ext_authz''
         \<and> NetworkFilter.Config t = AuthzConfig a
         \<and> StatPrefix a = ''envoy.ext_authz''
         \<and> GrpcCluster a = Some \<lparr>ClusterName = ''calico.dikastes''\<rparr>)
   \<and> 2 \<le> length (Split ''http_10.0.0.1_80'' listenerNameSeparator)
   \<and> Split ''http_10.0.0.1_80'' listenerNameSeparator ! 1 = ''10.0.0.1''
   \<and> Split ''http_10.0.0.1_80'' listenerNameSeparator ! 0 = ''http''
   \<and> (\<exists>l' cfg' h a.
         updateListener
           \<lparr>Listener.Name = ''http_10.0.0.1_80'',
            Listener.Filters =
              [Some \<lparr>NetworkFilter.Type = ''read'', NetworkFilter.Name = HTTPConnectionManager,
                 NetworkFilter.Config = HTTPConfig
                   \<lparr>HTTPFilterConfig.Filters = [], HTTPFilterConfig.Other = []\<rparr>\<rparr>],
            Listener.Other = []\<rparr> ''10.0.0.1'' = Inr l'
         \<and> Listener.Filters l' ! 0 =
             Some \<lparr>NetworkFilter.Type = ''read'', NetworkFilter.Name = HTTPConnectionManager,
               NetworkFilter.Config = HTTPConfig cfg'\<rparr>
         \<and> HTTPFilterConfig.Filters cfg' = [h]
         \<and> HTTPFilter.Name h = ''envoy.ext_authz''
         \<and> HTTPFilter.Config h = AuthzValue a
         \<and> StatPrefix a = []
         \<and> GrpcCluster a = Some \<lparr>ClusterName = ''calico.dikastes''\<rparr>)"
proof -
  let ?t = "\<lparr>Listener.Name = ''tcp_10.0.0.1_3306'', Listener.Filters = [],
            Listener.Other = []\<rparr>"
  let ?cfg = "\<lparr>HTTPFilterConfig.Filters = [], HTTPFilterConfig.Other = []\<rparr>"
  let ?f = "\<lparr>NetworkFilter.Type = ''read'', NetworkFilter.Name = HTTPConnectionManager,
                 NetworkFilter.Config = HTTPConfig ?cfg\<rparr>"
  let ?h = "\<lparr>Listener.Name = ''http_10.0.0.1_80'', Listener.Filters = [Some ?f],
            Listener.Other = []\<rparr>"
  have t1: "2 \<le> length (Split (Listener.Name ?t) listenerNameSeparator)"
    by (simp add: listenerNameSeparator_def)
  have t2: "Split (Listener.Name ?t) listenerNameSeparator ! 1 = ''10.0.0.1''"
    by (simp add: listenerNameSeparator_def)
  have t3: "Split (Listener.Name ?t) listenerNameSeparator ! 0 = ''tcp''"
    by (simp add: listenerNameSeparator_def)
  have h1: "2 \<le> length (Split (Listener.Name ?h) listenerNameSeparator)"
    by (simp add: listenerNameSeparator_def)
  have h2: "Split (Listener.Name ?h) listenerNameSeparator ! 1 = ''10.0.0.1''"
    by (simp add: listenerNameSeparator_def)
  have h3: "Split (Listener.Name ?h) listenerNameSeparator ! 0 = ''http''
           \<and> 0 < length (Listener.Filters ?h)
           \<and> Listener.Filters ?h ! 0 = Some ?f
           \<and> NetworkFilter.Name ?f = HTTPConnectionManager
           \<and> (\<forall>j<0. \<exists>g. Listener.Filters ?h ! j = Some g
                  \<and> NetworkFilter.Name g \<noteq> HTTPConnectionManager)
           \<and> NetworkFilter.Config ?f = HTTPConfig ?cfg"
    by (simp add: listenerNameSeparator_def)
  have tcp: "\<exists>l' t a. updateListener ?t ''10.0.0.1'' = Inr l'
              \<and> Listener.Filters l' = Some t # Listener.Filters ?t
              \<and> NetworkFilter.Name t = ''envoy.ext_authz''
              \<and> NetworkFilter.Config t = AuthzConfig a
              \<and> StatPrefix a = ''envoy.ext_authz''
              \<and> GrpcCluster a = Some \<lparr>ClusterName = ''calico.dikastes''\<rparr>"
    using inserted_filter_configs [OF t1 t2] t3 by blast
  have http: "\<exists>l' cfg' h a. updateListener ?h ''10.0.0.1'' = Inr l'
              \<and> Listener.Filters l' ! 0 =
                  Some (?f\<lparr>NetworkFilter.Config := HTTPConfig cfg'\<rparr>)
              \<and> HTTPFilterConfig.Filters cfg' = h # HTTPFilterConfig.Filters ?cfg
              \<and> HTTPFilter.Name h = ''envoy.ext_authz''
              \<and> HTTPFilter.Config h = AuthzValue a
              \<and> StatPrefix a = []
              \<and> GrpcCluster a = Some \<lparr>ClusterName = ''calico.dikastes''\<rparr>"
    using inserted_filter_configs [OF h1 h2, of 0 ?f ?cfg] h3 by blast
  show ?thesis
    using t1 t2 t3 h1 h2 h3 tcp http by simp
qed

text \<open>
  The claim C10 as it is stated gives the HTTP filter a stat-prefix as well. The filter
  that \<open>updateListener\<close> inserts into the entry below has none.
\<close>

theorem inserted_http_filter_counterexample:
  "updateListener
     \<lparr>Listener.Name = ''http_10.0.0.1_80'',
      Listener.Filters =
        [Some \<lparr>NetworkFilter.Type = ''read'', NetworkFilter.Name = HTTPConnectionManager,
           NetworkFilter.Config = HTTPConfig
             \<lparr>HTTPFilterConfig.Filters = [], HTTPFilterConfig.Other = []\<rparr>\<rparr>],
      Listener.Other = []\<rparr> ''10.0.0.1'' =
   Inr \<lparr>Listener.Name = ''http_10.0.0.1_80'',
        Listener.Filters =
          [Some \<lparr>NetworkFilter.Type = ''read'', NetworkFilter.Name = HTTPConnectionManager,
             NetworkFilter.Config = HTTPConfig
               \<lparr>HTTPFilterConfig.Filters =
                  [\<lparr>HTTPFilter.Type = ''decoder'', HTTPFilter.Name = ''envoy.ext_authz'',
                    HTTPFilter.Config = AuthzValue
                      \<lparr>StatPrefix = [],
                       GrpcCluster = Some \<lparr>ClusterName = ''calico.dikastes''\<rparr>\<rparr>\<rparr>],
                HTTPFilterConfig.Other = []\<rparr>\<rparr>],
        Listener.Other = []\<rparr>"
  by (simp add: updateListener_def classifyListener_def index_def listenerNameSeparator_def
      updateHTTPListener_def authzHttp_def authzHttpConfig_def AuthZFilterName_def
      AuthZClusterName_def INBOUND_def OUTBOUND_def VIRTUAL_def HTTP_def TCP_def)

end
